theory Spec2Isabelle
  imports Complex_Main "HOL-Library.AList"
begin

section \<open>Strings as the orchestrator uses them\<close>

text \<open>
  The agent-team orchestrator (\<^verbatim>\<open>extensions/agent-team.ts\<close>) works on JavaScript strings.
  They are modelled as \<^typ>\<open>string\<close>; white space and letter case are those of ASCII, which
  is what agent names, provider names and the event stream are written in.
\<close>

definition isSpace :: "char \<Rightarrow> bool" where
  "isSpace c = (c \<in> set [CHR 0x09, CHR 0x0A, CHR 0x0B, CHR 0x0C, CHR 0x0D, CHR '' ''])"

definition trim :: "string \<Rightarrow> string" where
  "trim s = rev (dropWhile isSpace (rev (dropWhile isSpace s)))"

definition toLowerCase_char :: "char \<Rightarrow> char" where
  "toLowerCase_char c =
     (case map_of (zip ''ABCDEFGHIJKLMNOPQRSTUVWXYZ'' ''abcdefghijklmnopqrstuvwxyz'') c of
        Some d \<Rightarrow> d
      | None \<Rightarrow> c)"

definition toLowerCase :: "string \<Rightarrow> string" where
  "toLowerCase s = map toLowerCase_char s"

definition toUpperCase_char :: "char \<Rightarrow> char" where
  "toUpperCase_char c =
     (case map_of (zip ''abcdefghijklmnopqrstuvwxyz'' ''ABCDEFGHIJKLMNOPQRSTUVWXYZ'') c of
        Some d \<Rightarrow> d
      | None \<Rightarrow> c)"

definition toUpperCase :: "string \<Rightarrow> string" where
  "toUpperCase s = map toUpperCase_char s"

text \<open>\<open>s.split(sep)\<close> for a one-character separator: the result is never empty.\<close>

fun split_str :: "char \<Rightarrow> string \<Rightarrow> string list" where
  "split_str sep [] = [[]]"
| "split_str sep (c # cs) =
     (if c = sep then [] # split_str sep cs
      else case split_str sep cs of
             [] \<Rightarrow> [[c]]
           | l # ls \<Rightarrow> (c # l) # ls)"

text \<open>\<open>xs.join(sep)\<close> on strings.\<close>

fun join_str :: "string \<Rightarrow> string list \<Rightarrow> string" where
  "join_str sep [] = []"
| "join_str sep [x] = x"
| "join_str sep (x # y # ys) = x @ sep @ join_str sep (y # ys)"

text \<open>\<open>s.indexOf(c)\<close> and \<open>s.lastIndexOf(c)\<close>: \<open>None\<close> stands for \<open>-1\<close>.\<close>

fun indexOf :: "char \<Rightarrow> string \<Rightarrow> nat option" where
  "indexOf c [] = None"
| "indexOf c (d # ds) =
     (if d = c then Some 0 else map_option Suc (indexOf c ds))"

definition lastIndexOf :: "char \<Rightarrow> string \<Rightarrow> nat option" where
  "lastIndexOf c s =
     (case indexOf c (rev s) of
        None \<Rightarrow> None
      | Some i \<Rightarrow> Some (length s - 1 - i))"

fun startsWith :: "string \<Rightarrow> string \<Rightarrow> bool" where
  "startsWith s [] = True"
| "startsWith [] (p # ps) = False"
| "startsWith (c # cs) (p # ps) = (c = p \<and> startsWith cs ps)"

definition endsWith :: "string \<Rightarrow> string \<Rightarrow> bool" where
  "endsWith s p = startsWith (rev s) (rev p)"

fun includes_str :: "string \<Rightarrow> string \<Rightarrow> bool" where
  "includes_str [] p = (p = [])"
| "includes_str (c # cs) p = (startsWith (c # cs) p \<or> includes_str cs p)"

text \<open>\<open>s.replace(pat, "")\<close> with a string pattern: the first occurrence only.\<close>

fun remove_first :: "string \<Rightarrow> string \<Rightarrow> string" where
  "remove_first pat [] = []"
| "remove_first pat (c # cs) =
     (if startsWith (c # cs) pat then drop (length pat) (c # cs)
      else c # remove_first pat cs)"

text \<open>\<open>s.replace(/\s+/g, "-")\<close>: every maximal run of white space becomes one dash.\<close>

fun dash_run :: "bool \<Rightarrow> string \<Rightarrow> string" where
  "dash_run in_run [] = []"
| "dash_run in_run (c # cs) =
     (if isSpace c then (if in_run then dash_run True cs else CHR ''-'' # dash_run True cs)
      else c # dash_run False cs)"

definition dash_spaces :: "string \<Rightarrow> string" where
  "dash_spaces s = dash_run False s"

section \<open>JSON values\<close>

text \<open>
  What \<open>JSON.parse\<close> returns. An object holds its own properties, each key once.
  Numbers are kept exact; the code only compares them with zero and forms one ratio.
\<close>

datatype json =
    JNull
  | JBool bool
  | JNum rat
  | JStr string
  | JArr "json list"
  | JObj "(string \<times> json) list"

text \<open>
  The library functions the code calls and this development does not define:
  \<open>JSON.parse\<close> (\<open>None\<close> when it throws), and the coercions JavaScript applies when a
  value that is not a string is joined into a string, or one that is not a number is
  divided.
\<close>

record host =
  JSON_parse :: "string \<Rightarrow> json option"
  ToString :: "json \<Rightarrow> string"
  ToNumber :: "json \<Rightarrow> rat"

text \<open>Truthiness of a value; \<open>None\<close> is \<open>undefined\<close>.\<close>

fun truthy :: "json option \<Rightarrow> bool" where
  "truthy None = False"
| "truthy (Some JNull) = False"
| "truthy (Some (JBool b)) = b"
| "truthy (Some (JNum n)) = (n \<noteq> 0)"
| "truthy (Some (JStr s)) = (s \<noteq> [])"
| "truthy (Some (JArr xs)) = True"
| "truthy (Some (JObj kvs)) = True"

text \<open>
  Optional chaining \<open>v?.k\<close>, where \<open>v\<close> may be \<open>undefined\<close> or \<open>null\<close>: on an object it
  is the property or \<open>undefined\<close>; on any other value the keys read here are \<open>undefined\<close>.
  Plain access \<open>v.k\<close> is the same on every value but \<open>null\<close>, where it throws a
  TypeError; the handlers below treat that case on its own.
\<close>

fun get_opt :: "json option \<Rightarrow> string \<Rightarrow> json option" where
  "get_opt None k = None"
| "get_opt (Some JNull) k = None"
| "get_opt (Some (JObj kvs)) k = map_of kvs k"
| "get_opt (Some v) k = None"

section \<open>Model capability checking\<close>

definition LOCAL_PROVIDERS :: "string list" where
  "LOCAL_PROVIDERS = [''ollama'', ''m3-ollama'', ''llama.cpp'', ''lmstudio'', ''llamafile'', ''jan'']"

record ModelCheckResult =
  model :: string
  reachable :: bool
  capabilities :: "string list"
  hasTools :: bool
  parameterSize :: string
  parameterSizeB :: "rat option"
  contextLength :: rat
  updateAvailable :: "bool option"

text \<open>
  \<open>parameterSizeB\<close> is a JavaScript number: \<open>None\<close> stands for \<open>NaN\<close>, and a value
  is the exact decimal where JavaScript holds the nearest double.
\<close>

definition parseModelString :: "string \<Rightarrow> string \<times> string" where
  "parseModelString modelStr =
     (case indexOf CHR ''/'' modelStr of
        None \<Rightarrow> ([], modelStr)
      | Some idx \<Rightarrow> (take idx modelStr, drop (idx + 1) modelStr))"

definition isLocalProvider :: "string \<Rightarrow> bool" where
  "isLocalProvider provider =
     (if provider = [] then False else toLowerCase provider \<in> set LOCAL_PROVIDERS)"

definition isDigit :: "char \<Rightarrow> bool" where
  "isDigit c = (c \<in> set ''0123456789'')"

definition digit_val :: "char \<Rightarrow> nat" where
  "digit_val c = (case map_of (zip ''0123456789'' [0, 1, 2, 3, 4, 5, 6, 7, 8, 9]) c of
                    Some d \<Rightarrow> d | None \<Rightarrow> 0)"

definition digits_val :: "string \<Rightarrow> nat" where
  "digits_val ds = foldl (\<lambda>acc c. 10 * acc + digit_val c) 0 ds"

text \<open>
  \<open>parseFloat\<close> on a run of digits and dots: the longest prefix that is a decimal
  literal, \<open>NaN\<close> when there is none.
\<close>

definition parseFloat_run :: "string \<Rightarrow> rat option" where
  "parseFloat_run run =
     (let ip = takeWhile isDigit run;
          rest = dropWhile isDigit run;
          fp = (case rest of [] \<Rightarrow> [] | c # cs \<Rightarrow> if c = CHR ''.'' then takeWhile isDigit cs else [])
      in if ip = [] \<and> fp = [] then None
         else Some (of_nat (digits_val ip) + of_nat (digits_val fp) / 10 ^ length fp))"

text \<open>
  The match of \<open>/([\d.]+)\s*([TBMK])/i\<close>: the first maximal run of digits and dots
  that white space and a unit letter follow (a shorter part of a run is followed by a
  digit or a dot, so it never matches).
\<close>

definition isNumChar :: "char \<Rightarrow> bool" where
  "isNumChar c = (isDigit c \<or> c = CHR ''.'')"

function param_match :: "string \<Rightarrow> (string \<times> char) option" where
  "param_match [] = None"
| "param_match (c # cs) =
     (if isNumChar c then
        (let run = takeWhile isNumChar (c # cs);
             after = dropWhile isSpace (dropWhile isNumChar cs)
         in case after of
              [] \<Rightarrow> None
            | u # us \<Rightarrow>
                if toUpperCase_char u \<in> set ''TBMK'' then Some (run, toUpperCase_char u)
                else param_match (dropWhile isNumChar cs))
      else param_match cs)"
  by pat_completeness auto
termination
  by (relation "measure length") (auto simp: length_dropWhile_le le_imp_less_Suc)

definition parseParamSize :: "string \<Rightarrow> rat option" where
  "parseParamSize sizeStr =
     (case param_match sizeStr of
        None \<Rightarrow> Some 0
      | Some (num, unit) \<Rightarrow>
          (if unit = CHR ''T'' then map_option (\<lambda>n. n * 1000) (parseFloat_run num)
           else if unit = CHR ''B'' then parseFloat_run num
           else if unit = CHR ''M'' then map_option (\<lambda>n. n / 1000) (parseFloat_run num)
           else if unit = CHR ''K'' then map_option (\<lambda>n. n / 1000000) (parseFloat_run num)
           else Some 0))"

definition splitModelTag :: "string \<Rightarrow> string \<times> string" where
  "splitModelTag modelName =
     (case lastIndexOf CHR '':'' modelName of
        None \<Rightarrow> (modelName, ''latest'')
      | Some idx \<Rightarrow> (take idx modelName, drop (idx + 1) modelName))"

definition isSafeChar :: "char \<Rightarrow> bool" where
  "isSafeChar c =
     (c \<in> set ''abcdefghijklmnopqrstuvwxyzABCDEFGHIJKLMNOPQRSTUVWXYZ0123456789._-'')"

definition SAFE_REGISTRY_NAME :: "string \<Rightarrow> bool" where
  "SAFE_REGISTRY_NAME s = (s \<noteq> [] \<and> list_all isSafeChar s)"

definition isHex :: "char \<Rightarrow> bool" where
  "isHex c = (c \<in> set ''abcdef0123456789'')"

text \<open>The capture of \<open>/sha256-([a-f0-9]+)/\<close>: the hex run after the first match.\<close>

fun digestMatch :: "string \<Rightarrow> string option" where
  "digestMatch [] = None"
| "digestMatch (c # cs) =
     (if startsWith (c # cs) ''sha256-'' \<and> takeWhile isHex (drop 7 (c # cs)) \<noteq> []
      then Some (takeWhile isHex (drop 7 (c # cs)))
      else digestMatch cs)"

text \<open>
  The two HTTP calls of \<open>checkOllamaModel\<close>, as the environment answers them. A call
  fails (the \<open>fetch\<close> promise rejects: no connection, timeout), answers with a status
  that is not ok, answers with a body that is not JSON, or answers with a JSON body.

  The body of an ok answer to \<open>/api/show\<close> is read as \<open>any\<close>, and three of the
  reads that follow \<open>result.reachable = true\<close> throw on a body of the wrong shape,
  inside the outer \<open>try\<close>:
  \<^item> the body is \<open>null\<close>: \<open>info.capabilities\<close> throws;
  \<^item> \<open>capabilities\<close> is truthy and has no method \<open>includes\<close> (a number, \<open>true\<close>, an
    object): \<open>result.capabilities.includes("tools")\<close> throws;
  \<^item> \<open>capabilities\<close> is absent or a list of strings and \<open>details.parameter_size\<close> is
    truthy and not a string: \<open>sizeStr.match\<close> throws in \<open>parseParamSize\<close>.

  Every other body is a description of the model: it holds the fields the code reads,
  each optional, with the types the Ollama API gives them.
\<close>

record show_info =
  info_capabilities :: "string list option"
  info_parameter_size :: "string option"
  info_model_info :: "(string \<times> json) list"
  info_modelfile :: "string option"

datatype show_outcome =
    ShowFailed
  | ShowNotOk
  | ShowBadBody
  | ShowNullBody
  | ShowBadCapabilities
  | ShowBadParameterSize "string list option"
  | ShowOk show_info

text \<open>
  The answers on which a read of the body throws after \<open>result.reachable = true\<close>.
\<close>

fun throws_after_reachable :: "show_outcome \<Rightarrow> bool" where
  "throws_after_reachable ShowNullBody = True"
| "throws_after_reachable ShowBadCapabilities = True"
| "throws_after_reachable (ShowBadParameterSize cs) = True"
| "throws_after_reachable other = False"

record layer =
  mediaType :: "string option"
  digest :: "string option"

datatype registry_outcome = RegFailed | RegNotOk | RegBadBody | RegOk "layer list"

record net =
  show_api :: "string \<Rightarrow> show_outcome"
  registry_api :: "string \<Rightarrow> string \<Rightarrow> registry_outcome"

datatype request = ShowRequest string | RegistryRequest string string

text \<open>
  The registry step: its own \<open>try\<close> block swallows every failure and leaves
  \<open>updateAvailable\<close> at \<open>null\<close>.
\<close>

definition registry_check :: "net \<Rightarrow> string \<Rightarrow> string \<Rightarrow> bool option \<times> request list" where
  "registry_check nw modelName modelfile =
     (case splitModelTag modelName of
        (baseName, tag) \<Rightarrow>
          if SAFE_REGISTRY_NAME baseName \<and> SAFE_REGISTRY_NAME tag then
            (case digestMatch modelfile of
               None \<Rightarrow> (None, [])
             | Some localDigest \<Rightarrow>
                 (case registry_api nw baseName tag of
                    RegOk layers \<Rightarrow>
                      (case find (\<lambda>l. mediaType l = Some ''application/vnd.ollama.image.model'') layers of
                         None \<Rightarrow> (None, [RegistryRequest baseName tag])
                       | Some modelLayer \<Rightarrow>
                           (case digest modelLayer of
                              None \<Rightarrow> (None, [RegistryRequest baseName tag])
                            | Some d \<Rightarrow>
                                (Some (localDigest \<noteq> remove_first ''sha256:'' d),
                                 [RegistryRequest baseName tag])))
                  | _ \<Rightarrow> (None, [RegistryRequest baseName tag])))
          else (None, []))"

definition context_length_of :: "(string \<times> json) list \<Rightarrow> rat" where
  "context_length_of modelInfo =
     (case find (\<lambda>(k, v). includes_str k ''context_length'' \<and> (case v of JNum n \<Rightarrow> True | _ \<Rightarrow> False))
             modelInfo of
        Some (k, JNum n) \<Rightarrow> n
      | _ \<Rightarrow> 0)"

type_synonym cache = "string \<Rightarrow> ModelCheckResult option"

text \<open>
  \<open>checkOllamaModel\<close> returns its result, the cache as it leaves it, and the requests it
  sent (none on a cache hit). Every exception of the outer \<open>try\<close> block lands in its
  \<open>catch\<close>, which returns \<open>result\<close> as it stands and stores nothing: with every field
  at its initial value when the request failed or the body was not JSON, and with
  \<open>reachable\<close> already \<open>true\<close> when a later read of the body threw. A field that holds
  a value outside its declared type at that moment (\<open>capabilities\<close> in the second case,
  \<open>parameterSize\<close> in the third) is shown at its initial value.
\<close>

definition checkOllamaModel ::
  "net \<Rightarrow> cache \<Rightarrow> string \<Rightarrow> ModelCheckResult \<times> cache \<times> request list" where
  "checkOllamaModel nw modelCheckCache modelName =
     (case modelCheckCache modelName of
        Some cached \<Rightarrow> (cached, modelCheckCache, [])
      | None \<Rightarrow>
          (let result = \<lparr>model = modelName, reachable = False, capabilities = [],
                          hasTools = False, parameterSize = [], parameterSizeB = Some 0,
                          contextLength = 0, updateAvailable = None\<rparr>
           in case show_api nw modelName of
                ShowFailed \<Rightarrow> (result, modelCheckCache, [ShowRequest modelName])
              | ShowBadBody \<Rightarrow> (result, modelCheckCache, [ShowRequest modelName])
              | ShowNullBody \<Rightarrow>
                  (result\<lparr>reachable := True\<rparr>, modelCheckCache, [ShowRequest modelName])
              | ShowBadCapabilities \<Rightarrow>
                  (result\<lparr>reachable := True\<rparr>, modelCheckCache, [ShowRequest modelName])
              | ShowBadParameterSize cs \<Rightarrow>
                  (let caps = (case cs of None \<Rightarrow> [] | Some cs \<Rightarrow> cs)
                   in (result\<lparr>reachable := True, capabilities := caps,
                              hasTools := (''tools'' \<in> set caps)\<rparr>,
                       modelCheckCache, [ShowRequest modelName]))
              | ShowNotOk \<Rightarrow>
                  (result\<lparr>reachable := True\<rparr>,
                   modelCheckCache(modelName \<mapsto> result\<lparr>reachable := True\<rparr>),
                   [ShowRequest modelName])
              | ShowOk info \<Rightarrow>
                  (let caps = (case info_capabilities info of None \<Rightarrow> [] | Some cs \<Rightarrow> cs);
                       psize = (case info_parameter_size info of None \<Rightarrow> [] | Some ps \<Rightarrow> ps);
                       modelfile = (case info_modelfile info of None \<Rightarrow> [] | Some mf \<Rightarrow> mf);
                       reg = registry_check nw modelName modelfile;
                       full = result\<lparr>reachable := True, capabilities := caps,
                                     hasTools := (''tools'' \<in> set caps),
                                     parameterSize := psize,
                                     parameterSizeB := parseParamSize psize,
                                     contextLength := context_length_of (info_model_info info),
                                     updateAvailable := fst reg\<rparr>
                   in (full, modelCheckCache(modelName \<mapsto> full), ShowRequest modelName # snd reg))))"

section \<open>Agent definitions, teams and live state\<close>

record AgentDef =
  name :: string
  description :: string
  tools :: string
  model :: string
  thinking :: string
  systemPrompt :: string
  "file" :: string

datatype status = Idle | Running | Done | Error

text \<open>What \<open>dispatchAgent\<close> resolves with.\<close>

record dispatch_result =
  "output" :: string
  exitCode :: int
  elapsed :: int

text \<open>
  \<open>timer\<close> holds the id of the interval the last dispatch started. \<open>elapsed\<close> is in
  milliseconds; \<open>contextPct\<close> is the exact ratio the JavaScript expression rounds.
\<close>

record AgentState =
  "def" :: AgentDef
  status :: status
  task :: string
  toolCount :: nat
  elapsed :: int
  lastWork :: string
  contextPct :: rat
  sessionFile :: "string option"
  runCount :: nat
  timer :: "nat option"

definition displayName :: "string \<Rightarrow> string" where
  "displayName n =
     join_str '' ''
       (map (\<lambda>w. toUpperCase (take 1 w) @ drop 1 w) (split_str CHR ''-'' n))"

subsection \<open>The file system, as the loader reads it\<close>

text \<open>
  \<open>readdirSync\<close> and \<open>readFileSync\<close> are \<open>None\<close> where they throw. \<open>join\<close> and \<open>resolve\<close>
  put a slash between their parts (the paths built here need no normalising).
\<close>

record fs =
  existsSync :: "string \<Rightarrow> bool"
  readdirSync :: "string \<Rightarrow> string list option"
  readFileSync :: "string \<Rightarrow> string option"

definition join_path :: "string list \<Rightarrow> string" where
  "join_path parts = join_str ''/'' parts"

subsection \<open>Teams YAML parser\<close>

definition isLineTerminator :: "char \<Rightarrow> bool" where
  "isLineTerminator c = (c = CHR 0x0A \<or> c = CHR 0x0D)"

text \<open>The capture of \<open>/^(\S[^:]*):$/\<close>.\<close>

definition teamMatch :: "string \<Rightarrow> string option" where
  "teamMatch line =
     (case line of
        [] \<Rightarrow> None
      | c # rest \<Rightarrow>
          if \<not> isSpace c \<and> rest \<noteq> [] \<and> last rest = CHR '':'' \<and> CHR '':'' \<notin> set (butlast rest)
          then Some (c # butlast rest)
          else None)"

text \<open>
  The capture of \<open>/^\s+-\s+(.+)$/\<close>. The dot matches no line terminator. When nothing
  follows the white space after the dash, the greedy \<open>\s+\<close> gives its last character back
  to the group.
\<close>

definition itemMatch :: "string \<Rightarrow> string option" where
  "itemMatch line =
     (if takeWhile isSpace line = [] then None
      else case dropWhile isSpace line of
             [] \<Rightarrow> None
           | d # r2 \<Rightarrow>
               if d \<noteq> CHR ''-'' \<or> takeWhile isSpace r2 = [] then None
               else if dropWhile isSpace r2 \<noteq> [] then
                 (if list_ex isLineTerminator (dropWhile isSpace r2) then None
                  else Some (dropWhile isSpace r2))
               else if 2 \<le> length r2 \<and> \<not> isLineTerminator (last r2) then Some [last r2]
               else None)"

text \<open>
  One line of the manifest. The state is the \<open>teams\<close> object (its own keys, in insertion
  order) and \<open>current\<close>. Assigning to the key \<open>__proto__\<close> creates no key of the object.
  (JavaScript lists keys that are array indices before the others; the order kept here
  is that of insertion throughout.)
\<close>

definition teams_line ::
  "(string \<times> string list) list \<times> string option \<Rightarrow> string
     \<Rightarrow> (string \<times> string list) list \<times> string option" where
  "teams_line st line =
     (case teamMatch line of
        Some t \<Rightarrow>
          (if trim t = ''__proto__'' then (fst st, Some (trim t))
           else (AList.update (trim t) [] (fst st), Some (trim t)))
      | None \<Rightarrow>
          (case (itemMatch line, snd st) of
             (Some item, Some current) \<Rightarrow>
               (case map_of (fst st) current of
                  Some members \<Rightarrow> (AList.update current (members @ [trim item]) (fst st), snd st)
                | None \<Rightarrow> st)
           | _ \<Rightarrow> st))"

definition parseTeamsYaml :: "string \<Rightarrow> (string \<times> string list) list" where
  "parseTeamsYaml raw = fst (foldl teams_line ([], None) (split_str CHR 0x0A raw))"

subsection \<open>Frontmatter parser\<close>

text \<open>The first occurrence of \<open>pat\<close> in a string: what stands before and after it.\<close>

fun split_first :: "string \<Rightarrow> string \<Rightarrow> (string \<times> string) option" where
  "split_first pat [] = (if pat = [] then Some ([], []) else None)"
| "split_first pat (c # cs) =
     (if startsWith (c # cs) pat then Some ([], drop (length pat) (c # cs))
      else map_option (\<lambda>(a, b). (c # a, b)) (split_first pat cs))"

text \<open>The two groups of \<open>/^---\n([\s\S]*?)\n---\n([\s\S]*)$/\<close>.\<close>

definition frontmatter_match :: "string \<Rightarrow> (string \<times> string) option" where
  "frontmatter_match raw =
     (if startsWith raw [CHR ''-'', CHR ''-'', CHR ''-'', CHR 0x0A]
      then split_first [CHR 0x0A, CHR ''-'', CHR ''-'', CHR ''-'', CHR 0x0A] (drop 4 raw)
      else None)"

definition frontmatter_line :: "(string \<Rightarrow> string option) \<Rightarrow> string \<Rightarrow> (string \<Rightarrow> string option)" where
  "frontmatter_line frontmatter line =
     (case indexOf CHR '':'' line of
        None \<Rightarrow> frontmatter
      | Some idx \<Rightarrow>
          if 0 < idx then frontmatter(trim (take idx line) \<mapsto> trim (drop (idx + 1) line))
          else frontmatter)"

text \<open>\<open>frontmatter.k || dflt\<close>.\<close>

definition field_or :: "(string \<Rightarrow> string option) \<Rightarrow> string \<Rightarrow> string \<Rightarrow> string" where
  "field_or frontmatter k dflt =
     (case frontmatter k of
        None \<Rightarrow> dflt
      | Some v \<Rightarrow> if v = [] then dflt else v)"

definition parseAgentFile :: "fs \<Rightarrow> string \<Rightarrow> AgentDef option" where
  "parseAgentFile files filePath =
     (case readFileSync files filePath of
        None \<Rightarrow> None
      | Some raw \<Rightarrow>
          (case frontmatter_match raw of
             None \<Rightarrow> None
           | Some (header, body) \<Rightarrow>
               (let frontmatter = foldl frontmatter_line Map.empty (split_str CHR 0x0A header)
                in if field_or frontmatter ''name'' [] = [] then None
                   else Some \<lparr>name = field_or frontmatter ''name'' [],
                              description = field_or frontmatter ''description'' [],
                              tools = field_or frontmatter ''tools'' ''read,grep,find,ls'',
                              model = field_or frontmatter ''model'' [],
                              thinking = field_or frontmatter ''thinking'' [],
                              systemPrompt = trim body,
                              file = filePath\<rparr>)))"

subsection \<open>Directory scan\<close>

text \<open>One file of a directory listing; the state is \<open>agents\<close> and \<open>seen\<close>.\<close>

definition scan_file ::
  "fs \<Rightarrow> string \<Rightarrow> AgentDef list \<times> string set \<Rightarrow> string \<Rightarrow> AgentDef list \<times> string set" where
  "scan_file files dir st fname =
     (if \<not> endsWith fname ''.md'' then st
      else case parseAgentFile files (join_path [dir, fname]) of
             None \<Rightarrow> st
           | Some d \<Rightarrow>
               if toLowerCase (name d) \<in> snd st then st
               else (fst st @ [d], insert (toLowerCase (name d)) (snd st)))"

definition scan_dir ::
  "fs \<Rightarrow> AgentDef list \<times> string set \<Rightarrow> string \<Rightarrow> AgentDef list \<times> string set" where
  "scan_dir files st dir =
     (if \<not> existsSync files dir then st
      else case readdirSync files dir of
             None \<Rightarrow> st
           | Some listing \<Rightarrow> foldl (scan_file files dir) st listing)"

definition scanAgentDirs :: "fs \<Rightarrow> string \<Rightarrow> AgentDef list" where
  "scanAgentDirs files cwd =
     fst (foldl (scan_dir files) ([], {})
            [join_path [cwd, ''agents''],
             join_path [cwd, ''.claude'', ''agents''],
             join_path [cwd, ''.pi'', ''agents'']])"

section \<open>The extension's state\<close>

text \<open>
  The variables of the extension closure, and the module's \<open>modelCheckCache\<close>.
  \<open>agentStates\<close> is a JavaScript \<open>Map\<close> from the lower-cased name to a state object,
  in insertion order. The state objects live in \<open>store\<close>: event handlers hold on to the
  object they were started with, also after a team switch has cleared the map.
  \<open>intervals\<close> are the running tickers: the object each one updates and its start time.
\<close>

record notice =
  notice_agent :: string
  notice_status :: status
  notice_seconds :: int
  notice_level :: string

record world =
  agentStates :: "(string \<times> nat) list"
  store :: "nat \<Rightarrow> AgentState"
  nextAddr :: nat
  allAgentDefs :: "AgentDef list"
  teams :: "(string \<times> string list) list"
  activeTeamName :: string
  gridCols :: nat
  sessionDir :: string
  contextWindow :: rat
  modelCheckCache :: cache
  intervals :: "nat \<Rightarrow> (nat \<times> int) option"
  nextInterval :: nat
  notices :: "notice list"

text \<open>
  \<open>loadAgents\<close>: the manifest is read inside a \<open>try\<close> block, so a file that cannot be
  read counts as no team. (The session directory the function creates when it is missing
  is not tracked: the file system is only read here.)
\<close>

definition load_teams :: "fs \<Rightarrow> string \<Rightarrow> (string \<times> string list) list" where
  "load_teams files cwd =
     (let teamsPath = join_path [cwd, ''.pi'', ''agents'', ''teams.yaml'']
      in if existsSync files teamsPath then
           (case readFileSync files teamsPath of
              None \<Rightarrow> []
            | Some raw \<Rightarrow> parseTeamsYaml raw)
         else [])"

definition loadAgents :: "fs \<Rightarrow> string \<Rightarrow> world \<Rightarrow> world" where
  "loadAgents files cwd w =
     (let defs = scanAgentDirs files cwd;
          loaded = load_teams files cwd
      in w\<lparr>sessionDir := join_path [cwd, ''.pi'', ''agent-sessions''],
            allAgentDefs := defs,
            teams := (if length loaded = 0 then [(''all'', map name defs)] else loaded)\<rparr>)"

definition fresh_state :: "fs \<Rightarrow> string \<Rightarrow> AgentDef \<Rightarrow> AgentState" where
  "fresh_state files sessDir d =
     (let key = dash_spaces (toLowerCase (name d));
          sessFile = join_path [sessDir, key @ ''.json'']
      in \<lparr>def = d, status = Idle, task = [], toolCount = 0, elapsed = 0, lastWork = [],
          contextPct = 0,
          sessionFile = (if existsSync files sessFile then Some sessFile else None),
          runCount = 0, timer = None\<rparr>)"

definition activate_member :: "fs \<Rightarrow> (string \<Rightarrow> AgentDef option) \<Rightarrow> world \<Rightarrow> string \<Rightarrow> world" where
  "activate_member files defsByName w member =
     (case defsByName (toLowerCase member) of
        None \<Rightarrow> w
      | Some d \<Rightarrow>
          w\<lparr>agentStates := AList.update (toLowerCase (name d)) (nextAddr w) (agentStates w),
            store := (store w)(nextAddr w := fresh_state files (sessionDir w) d),
            nextAddr := nextAddr w + 1\<rparr>)"

definition activateTeam :: "fs \<Rightarrow> string \<Rightarrow> world \<Rightarrow> world" where
  "activateTeam files teamName w =
     (let members = (case map_of (teams w) teamName of None \<Rightarrow> [] | Some ms \<Rightarrow> ms);
          defsByName = map_of (rev (map (\<lambda>d. (toLowerCase (name d), d)) (allAgentDefs w)));
          w1 = foldl (activate_member files defsByName)
                 (w\<lparr>activeTeamName := teamName, agentStates := []\<rparr>) members;
          n = length (agentStates w1)
      in w1\<lparr>gridCols := (if n \<le> 3 then n else if n = 4 then 2 else 3)\<rparr>)"

section \<open>Dispatch\<close>

text \<open>\<open>ctx.model\<close>: the dispatcher's own provider and model id, when it has one.\<close>

record dispatch_ctx =
  ctx_model :: "(string \<times> string) option"

text \<open>
  The variables one call of \<open>dispatchAgent\<close> closes over once it has spawned the child:
  the state object, the start time, the session file, the arguments it spawned \<open>pi\<close>
  with, the text chunks, the line buffer, and what the promise resolved with.
\<close>

record run =
  run_state :: nat
  startTime :: int
  agentSessionFile :: string
  spawn_args :: "string list"
  textChunks :: "string list"
  buffer :: string
  resolved :: "dispatch_result option"

datatype launch = Rejected dispatch_result | Spawned run

definition ambient_model :: "dispatch_ctx \<Rightarrow> string \<Rightarrow> string" where
  "ambient_model ctx dflt =
     (case ctx_model ctx of
        Some (provider, ident) \<Rightarrow> provider @ ''/'' @ ident
      | None \<Rightarrow> dflt)"

definition effective_model :: "dispatch_ctx \<Rightarrow> AgentState \<Rightarrow> string" where
  "effective_model ctx state =
     (if model (def state) \<noteq> [] then model (def state) else ambient_model ctx [])"

text \<open>
  The pre-dispatch model check: the check result the dispatch decides on (none for a model
  that is not local), the cache afterwards and the requests sent.
\<close>

definition preflight ::
  "net \<Rightarrow> cache \<Rightarrow> string \<Rightarrow> ModelCheckResult option \<times> cache \<times> request list" where
  "preflight nw mcache effectiveModel =
     (if effectiveModel = [] then (None, mcache, [])
      else case parseModelString effectiveModel of
             (provider, modelName) \<Rightarrow>
               if isLocalProvider provider then
                 (case mcache modelName of
                    Some c \<Rightarrow> (Some c, mcache, [])
                  | None \<Rightarrow>
                      (case checkOllamaModel nw mcache modelName of
                         (c, mcache', reqs) \<Rightarrow> (Some c, mcache', reqs)))
               else (None, mcache, []))"

definition blocks :: "ModelCheckResult option \<Rightarrow> bool" where
  "blocks chk = (case chk of None \<Rightarrow> False | Some c \<Rightarrow> \<not> hasTools c \<and> reachable c)"

definition not_found_result :: "world \<Rightarrow> string \<Rightarrow> dispatch_result" where
  "not_found_result w agentName =
     \<lparr>output = ''Agent \"'' @ agentName @ ''\" not found. Available: '' @
                join_str '', '' (map (\<lambda>(k, a). displayName (name (def (store w a)))) (agentStates w)),
      exitCode = 1, elapsed = 0\<rparr>"

definition already_running_result :: "AgentState \<Rightarrow> dispatch_result" where
  "already_running_result state =
     \<lparr>output = ''Agent \"'' @ displayName (name (def state)) @
                ''\" is already running. Wait for it to finish.'',
      exitCode = 1, elapsed = 0\<rparr>"

definition blocked_result :: "AgentState \<Rightarrow> string \<Rightarrow> ModelCheckResult \<Rightarrow> dispatch_result" where
  "blocked_result state modelName chk =
     \<lparr>output = ''BLOCKED: \"'' @ modelName @ ''\" does not support tool calling '' @
                ''(capabilities: ['' @ join_str '', '' (capabilities chk) @ '']). '' @
                ''Agent \"'' @ displayName (name (def state)) @ ''\" would fail to use tools. '' @
                ''Fix the model override in '' @ file (def state) @ '' or run /agents-check.'',
      exitCode = 1, elapsed = 0\<rparr>"

definition build_args :: "dispatch_ctx \<Rightarrow> AgentState \<Rightarrow> string \<Rightarrow> string \<Rightarrow> string list" where
  "build_args ctx state sessFile tsk =
     [''--mode'', ''json'', ''-p'', ''--no-extensions'',
      ''--model'', (if model (def state) \<noteq> [] then model (def state)
                    else ambient_model ctx ''openrouter/google/gemini-3-flash-preview''),
      ''--tools'', tools (def state),
      ''--thinking'', (if thinking (def state) \<noteq> [] then thinking (def state) else ''off''),
      ''--append-system-prompt'', systemPrompt (def state),
      ''--session'', sessFile]
     @ (case sessionFile state of
          None \<Rightarrow> []
        | Some f \<Rightarrow> if f \<noteq> [] then [''-c''] else [])
     @ [tsk]"

text \<open>
  The second half of \<open>dispatchAgent\<close>: the state object is reset and marked running,
  the ticker is started, and \<open>pi\<close> is spawned. \<open>now\<close> is the clock at that moment.
\<close>

definition start_run :: "dispatch_ctx \<Rightarrow> int \<Rightarrow> string \<Rightarrow> nat \<Rightarrow> world \<Rightarrow> run \<times> world" where
  "start_run ctx now tsk a w =
     (let state = store w a;
          sessFile = join_path [sessionDir w,
                       dash_spaces (toLowerCase (name (def state))) @ ''.json''];
          started = state\<lparr>status := Running, task := tsk, toolCount := 0,
                          elapsed := 0, lastWork := [],
                          runCount := runCount state + 1,
                          timer := Some (nextInterval w)\<rparr>
      in (\<lparr>run_state = a, startTime = now, agentSessionFile = sessFile,
           spawn_args = build_args ctx state sessFile tsk,
           textChunks = [], buffer = [], resolved = None\<rparr>,
          w\<lparr>store := (store w)(a := started),
            intervals := (intervals w)(nextInterval w \<mapsto> (a, now)),
            nextInterval := nextInterval w + 1\<rparr>))"

text \<open>
  \<open>dispatchAgent\<close> up to the point where it either returns a rejection or has spawned
  the child: the outcome, the state it leaves and the probe requests it sent. The call
  runs to this point in one piece: what other handlers do while it awaits the probe is
  not interleaved here.
\<close>

definition dispatchAgent :: "net \<Rightarrow> dispatch_ctx \<Rightarrow> int \<Rightarrow> string \<Rightarrow> string \<Rightarrow> world
     \<Rightarrow> launch \<times> world \<times> request list" where
  "dispatchAgent nw ctx now agentName tsk w =
     (case map_of (agentStates w) (toLowerCase agentName) of
        None \<Rightarrow> (Rejected (not_found_result w agentName), w, [])
      | Some a \<Rightarrow>
          if status (store w a) = Running
          then (Rejected (already_running_result (store w a)), w, [])
          else
            (case preflight nw (modelCheckCache w) (effective_model ctx (store w a)) of
               (chk, mcache', reqs) \<Rightarrow>
                 (case (if blocks chk then chk else None) of
                    Some c \<Rightarrow>
                      (Rejected (blocked_result (store w a)
                                   (snd (parseModelString (effective_model ctx (store w a)))) c),
                       w\<lparr>modelCheckCache := mcache'\<rparr>, reqs)
                  | None \<Rightarrow>
                      (case start_run ctx now tsk a (w\<lparr>modelCheckCache := mcache'\<rparr>) of
                         (r, w') \<Rightarrow> (Spawned r, w', reqs)))))"

subsection \<open>The child's event stream\<close>

text \<open>\<open>delta.delta || ""\<close>, as \<open>join\<close> later turns it into text.\<close>

definition text_of :: "host \<Rightarrow> json option \<Rightarrow> string" where
  "text_of h v =
     (if truthy v then (case v of Some (JStr t) \<Rightarrow> t | Some u \<Rightarrow> ToString h u | None \<Rightarrow> [])
      else [])"

text \<open>\<open>usage.input || 0\<close>, as the division reads it.\<close>

definition number_of :: "host \<Rightarrow> json option \<Rightarrow> rat" where
  "number_of h v =
     (if truthy v then (case v of Some (JNum n) \<Rightarrow> n | Some u \<Rightarrow> ToNumber h u | None \<Rightarrow> 0)
      else 0)"

text \<open>\<open>full.split("\n").filter(l => l.trim()).pop() || ""\<close>.\<close>

definition last_nonblank :: "string \<Rightarrow> string" where
  "last_nonblank full =
     (case rev (filter (\<lambda>l. trim l \<noteq> []) (split_str CHR 0x0A full)) of
        [] \<Rightarrow> []
      | l # ls \<Rightarrow> l)"

text \<open>
  \<open>[...msgs].reverse().find(m => m.role === "assistant")\<close> on the reversed list:
  reading \<open>role\<close> of a \<open>null\<close> entry throws.
\<close>

fun find_assistant :: "json list \<Rightarrow> unit + json option" where
  "find_assistant [] = Inr None"
| "find_assistant (m # ms) =
     (if m = JNull then Inl ()
      else if get_opt (Some m) ''role'' = Some (JStr ''assistant'') then Inr (Some m)
      else find_assistant ms)"

text \<open>The spread \<open>[...msgs]\<close>: an array or a string can be spread, anything else throws.\<close>

definition spread :: "json \<Rightarrow> unit + json list" where
  "spread v =
     (case v of
        JArr xs \<Rightarrow> Inr xs
      | JStr t \<Rightarrow> Inr (map (\<lambda>c. JStr [c]) t)
      | _ \<Rightarrow> Inl ())"

text \<open>The update of \<open>contextPct\<close> from a message that carries \<open>usage\<close>.\<close>

definition usage_update :: "host \<Rightarrow> rat \<Rightarrow> json option \<Rightarrow> AgentState \<Rightarrow> AgentState" where
  "usage_update h cw msg state =
     (if truthy (get_opt msg ''usage'') \<and> cw > 0
      then state\<lparr>contextPct := number_of h (get_opt (get_opt msg ''usage'') ''input'') / cw * 100\<rparr>
      else state)"

text \<open>
  One decoded event of the \<open>data\<close> handler, on the state object and the text chunks.
  Whatever throws inside the \<open>try\<close> block leaves both as they are.
\<close>

definition handle_event ::
  "host \<Rightarrow> rat \<Rightarrow> json \<Rightarrow> AgentState \<times> string list \<Rightarrow> AgentState \<times> string list" where
  "handle_event h cw event sc =
     (if event = JNull then sc
      else if get_opt (Some event) ''type'' = Some (JStr ''message_update'') then
        (if get_opt (get_opt (Some event) ''assistantMessageEvent'') ''type'' = Some (JStr ''text_delta'')
         then (let chunks = snd sc @ [text_of h (get_opt (get_opt (Some event) ''assistantMessageEvent'') ''delta'')]
               in ((fst sc)\<lparr>lastWork := last_nonblank (concat chunks)\<rparr>, chunks))
         else sc)
      else if get_opt (Some event) ''type'' = Some (JStr ''tool_execution_start'') then
        ((fst sc)\<lparr>toolCount := toolCount (fst sc) + 1\<rparr>, snd sc)
      else if get_opt (Some event) ''type'' = Some (JStr ''message_end'') then
        (usage_update h cw (get_opt (Some event) ''message'') (fst sc), snd sc)
      else if get_opt (Some event) ''type'' = Some (JStr ''agent_end'') then
        (case spread (if truthy (get_opt (Some event) ''messages'')
                      then the (get_opt (Some event) ''messages'') else JArr []) of
           Inl _ \<Rightarrow> sc
         | Inr msgs \<Rightarrow>
             (case find_assistant (rev msgs) of
                Inl _ \<Rightarrow> sc
              | Inr found \<Rightarrow> (usage_update h cw found (fst sc), snd sc)))
      else sc)"

definition handle_line ::
  "host \<Rightarrow> rat \<Rightarrow> AgentState \<times> string list \<Rightarrow> string \<Rightarrow> AgentState \<times> string list" where
  "handle_line h cw sc line =
     (if trim line = [] then sc
      else case JSON_parse h line of
             None \<Rightarrow> sc
           | Some event \<Rightarrow> handle_event h cw event sc)"

text \<open>The \<open>data\<close> handler of the child's standard output.\<close>

definition on_data :: "host \<Rightarrow> string \<Rightarrow> world \<times> run \<Rightarrow> world \<times> run" where
  "on_data h chunk wr =
     (case wr of
        (w, r) \<Rightarrow>
          (let lines = split_str CHR 0x0A (buffer r @ chunk);
               sc = foldl (handle_line h (contextWindow w)) (store w (run_state r), textChunks r)
                      (butlast lines)
           in (w\<lparr>store := (store w)(run_state r := fst sc)\<rparr>,
               r\<lparr>textChunks := snd sc, buffer := last lines\<rparr>)))"

text \<open>
  What is left in the buffer when the stream closes: only a text delta is taken from it.
\<close>

definition final_chunks :: "host \<Rightarrow> string \<Rightarrow> string list \<Rightarrow> string list" where
  "final_chunks h buf chunks =
     (if trim buf = [] then chunks
      else case JSON_parse h buf of
             None \<Rightarrow> chunks
           | Some event \<Rightarrow>
               if event \<noteq> JNull
                  \<and> get_opt (Some event) ''type'' = Some (JStr ''message_update'')
                  \<and> get_opt (get_opt (Some event) ''assistantMessageEvent'') ''type'' = Some (JStr ''text_delta'')
               then chunks @ [text_of h (get_opt (get_opt (Some event) ''assistantMessageEvent'') ''delta'')]
               else chunks)"

definition clearInterval :: "nat option \<Rightarrow> (nat \<Rightarrow> (nat \<times> int) option) \<Rightarrow> (nat \<Rightarrow> (nat \<times> int) option)" where
  "clearInterval t ivs = (case t of None \<Rightarrow> ivs | Some i \<Rightarrow> ivs(i := None))"

text \<open>\<open>resolve(v)\<close>: a promise keeps the first value it was resolved with.\<close>

definition resolve :: "dispatch_result \<Rightarrow> run \<Rightarrow> run" where
  "resolve v r = (case resolved r of None \<Rightarrow> r\<lparr>resolved := Some v\<rparr> | Some u \<Rightarrow> r)"

text \<open>\<open>Math.round(ms / 1000)\<close> on a whole number of milliseconds.\<close>

definition round_seconds :: "int \<Rightarrow> int" where
  "round_seconds ms = (ms + 500) div 1000"

text \<open>The \<open>close\<close> handler: \<open>code\<close> is the exit code, \<open>None\<close> when a signal ended the child.\<close>

definition on_close :: "host \<Rightarrow> int option \<Rightarrow> int \<Rightarrow> world \<times> run \<Rightarrow> world \<times> run" where
  "on_close h code now wr =
     (case wr of
        (w, r) \<Rightarrow>
          (let chunks = final_chunks h (buffer r) (textChunks r);
               state = store w (run_state r);
               full = concat chunks;
               closed = state\<lparr>elapsed := now - startTime r,
                              status := (if code = Some 0 then Done else Error),
                              sessionFile := (if code = Some 0 then Some (agentSessionFile r)
                                              else sessionFile state),
                              lastWork := last_nonblank full\<rparr>
           in (w\<lparr>intervals := clearInterval (timer state) (intervals w),
                 store := (store w)(run_state r := closed),
                 notices := notices w @
                   [\<lparr>notice_agent = displayName (name (def closed)),
                     notice_status = status closed,
                     notice_seconds = round_seconds (elapsed closed),
                     notice_level = (if status closed = Done then ''success'' else ''error'')\<rparr>]\<rparr>,
               resolve \<lparr>output = full,
                        exitCode = (case code of None \<Rightarrow> 1 | Some c \<Rightarrow> c),
                        elapsed = elapsed closed\<rparr>
                 (r\<lparr>textChunks := chunks\<rparr>))))"

text \<open>The \<open>error\<close> handler: the child could not be started.\<close>

definition on_error :: "string \<Rightarrow> int \<Rightarrow> world \<times> run \<Rightarrow> world \<times> run" where
  "on_error msg now wr =
     (case wr of
        (w, r) \<Rightarrow>
          (let state = store w (run_state r)
           in (w\<lparr>intervals := clearInterval (timer state) (intervals w),
                 store := (store w)(run_state r :=
                            state\<lparr>status := Error, lastWork := ''Error: '' @ msg\<rparr>)\<rparr>,
               resolve \<lparr>output = ''Error spawning agent: '' @ msg, exitCode = 1,
                        elapsed = now - startTime r\<rparr> r)))"

text \<open>One firing of the interval \<open>i\<close>, if it is still running.\<close>

definition on_tick :: "nat \<Rightarrow> int \<Rightarrow> world \<Rightarrow> world" where
  "on_tick i now w =
     (case intervals w i of
        None \<Rightarrow> w
      | Some (a, start) \<Rightarrow> w\<lparr>store := (store w)(a := (store w a)\<lparr>elapsed := now - start\<rparr>)\<rparr>)"

text \<open>Standard output arriving chunk by chunk.\<close>

definition on_stream :: "host \<Rightarrow> string list \<Rightarrow> world \<times> run \<Rightarrow> world \<times> run" where
  "on_stream h chunks wr = foldl (\<lambda>acc chunk. on_data h chunk acc) wr chunks"

subsection \<open>What the stream says, line by line\<close>

text \<open>
  The reading of one line that the handlers share: a line that is blank, that
  \<open>JSON.parse\<close> rejects or that decodes to \<open>null\<close> has no effect. A line is a tool start
  when its event has that type, and carries text when it is a \<open>message_update\<close> with a
  \<open>text_delta\<close>. The complete lines of an output are those a newline ends; the
  transcript of an output is the text of its complete lines, then the text of what
  follows the last newline.
\<close>

definition decode_line :: "host \<Rightarrow> string \<Rightarrow> json option" where
  "decode_line h line =
     (if trim line = [] then None
      else case JSON_parse h line of
             None \<Rightarrow> None
           | Some ev \<Rightarrow> if ev = JNull then None else Some ev)"

definition is_tool_start :: "host \<Rightarrow> string \<Rightarrow> bool" where
  "is_tool_start h line =
     (case decode_line h line of
        None \<Rightarrow> False
      | Some ev \<Rightarrow> get_opt (Some ev) ''type'' = Some (JStr ''tool_execution_start''))"

definition line_text :: "host \<Rightarrow> string \<Rightarrow> string option" where
  "line_text h line =
     (case decode_line h line of
        None \<Rightarrow> None
      | Some ev \<Rightarrow>
          if get_opt (Some ev) ''type'' = Some (JStr ''message_update'')
             \<and> get_opt (get_opt (Some ev) ''assistantMessageEvent'') ''type'' = Some (JStr ''text_delta'')
          then Some (text_of h (get_opt (get_opt (Some ev) ''assistantMessageEvent'') ''delta''))
          else None)"

definition complete_lines :: "string \<Rightarrow> string list" where
  "complete_lines s = butlast (split_str CHR 0x0A s)"

definition transcript :: "host \<Rightarrow> string \<Rightarrow> string" where
  "transcript h s =
     concat (List.map_filter (line_text h) (complete_lines s)
             @ (case line_text h (last (split_str CHR 0x0A s)) of None \<Rightarrow> [] | Some t \<Rightarrow> [t]))"

subsection \<open>Two notions for the proofs\<close>

text \<open>A file the scan passes over: it adds nothing and marks nothing as seen.\<close>

definition skipped :: "fs \<Rightarrow> string \<Rightarrow> string set \<Rightarrow> string \<Rightarrow> bool" where
  "skipped files dir seen fname =
     (\<not> endsWith fname ''.md''
      \<or> (case parseAgentFile files (join_path [dir, fname]) of
            None \<Rightarrow> True
          | Some d \<Rightarrow> toLowerCase (name d) \<in> seen))"


section \<open>Example inputs\<close>

text \<open>
  A project directory \<open>/p\<close> with two agent files and no team manifest, three behaviours
  of the model host, and the states the extension reaches on them.
\<close>

definition nw_missing :: net where
  "nw_missing = \<lparr>show_api = (\<lambda>m. ShowNotOk), registry_api = (\<lambda>b t. RegFailed)\<rparr>"

definition nw_down :: net where
  "nw_down = \<lparr>show_api = (\<lambda>m. ShowFailed), registry_api = (\<lambda>b t. RegFailed)\<rparr>"

definition nw_null :: net where
  "nw_null = \<lparr>show_api = (\<lambda>m. ShowNullBody), registry_api = (\<lambda>b t. RegFailed)\<rparr>"

definition phi3_missing :: ModelCheckResult where
  "phi3_missing = \<lparr>ModelCheckResult.model = ''phi3'', reachable = True, capabilities = [],
       hasTools = False, parameterSize = [], parameterSizeB = Some 0, contextLength = 0,
       updateAvailable = None\<rparr>"

definition builder_md :: string where
  "builder_md = ''---'' @ [CHR 0x0A] @ ''name: builder'' @ [CHR 0x0A] @ ''tools: read,write'' @ [CHR 0x0A]
                @ ''---'' @ [CHR 0x0A] @ ''You build.''"

definition scout_md :: string where
  "scout_md = ''---'' @ [CHR 0x0A] @ ''name: Scout'' @ [CHR 0x0A] @ ''model: ollama/phi3'' @ [CHR 0x0A]
              @ ''---'' @ [CHR 0x0A] @ ''You scout.''"

definition files0 :: fs where
  "files0 = \<lparr>existsSync = (\<lambda>p. p = ''/p/agents''),
             readdirSync = (\<lambda>p. if p = ''/p/agents'' then Some [''builder.md'', ''scout.md''] else None),
             readFileSync = (\<lambda>p. if p = ''/p/agents/builder.md'' then Some builder_md
                                    else if p = ''/p/agents/scout.md'' then Some scout_md
                                    else None)\<rparr>"

definition blank_state :: AgentState where
  "blank_state = \<lparr>def = \<lparr>name = [], description = [], tools = [], model = [], thinking = [],
                          systemPrompt = [], file = []\<rparr>,
                  status = Idle, task = [], toolCount = 0, elapsed = 0, lastWork = [],
                  contextPct = 0, sessionFile = None, runCount = 0, timer = None\<rparr>"

definition w_init :: world where
  "w_init = \<lparr>agentStates = [], store = (\<lambda>a. blank_state), nextAddr = 0, allAgentDefs = [],
             teams = [], activeTeamName = [], gridCols = 2, sessionDir = [], contextWindow = 0,
             modelCheckCache = Map.empty, intervals = Map.empty, nextInterval = 0, notices = []\<rparr>"

definition w_team :: world where
  "w_team = activateTeam files0 ''all'' (loadAgents files0 ''/p'' w_init)"

definition ctx_cloud :: dispatch_ctx where
  "ctx_cloud = \<lparr>ctx_model = Some (''anthropic'', ''claude-sonnet'')\<rparr>"

definition w_busy :: world where
  "w_busy = fst (snd (dispatchAgent nw_down ctx_cloud 1000 ''builder'' ''list files'' w_team))"

text \<open>Three lines a child writes, and a \<open>JSON.parse\<close> that knows them.\<close>

definition tool_line :: string where
  "tool_line = ''{\"type\":\"tool_execution_start\"}''"

definition text_line :: string where
  "text_line = ''{\"type\":\"message_update\",\"assistantMessageEvent\":{\"type\":\"text_delta\",\"delta\":\"3 files\"}}''"

definition usage_line :: string where
  "usage_line = ''{\"type\":\"message_end\",\"message\":{\"usage\":{\"input\":50000}}}''"

definition h_demo :: host where
  "h_demo =
     \<lparr>JSON_parse = (\<lambda>s.
        if s = tool_line then Some (JObj [(''type'', JStr ''tool_execution_start'')])
        else if s = text_line then
          Some (JObj [(''type'', JStr ''message_update''),
                      (''assistantMessageEvent'',
                       JObj [(''type'', JStr ''text_delta''), (''delta'', JStr ''3 files'')])])
        else if s = usage_line then
          Some (JObj [(''type'', JStr ''message_end''),
                      (''message'', JObj [(''usage'', JObj [(''input'', JNum 50000)])])])
        else None),
      ToString = (\<lambda>v. []),
      ToNumber = (\<lambda>v. 0)\<rparr>"

text \<open>
  The run the dispatch of \<open>builder\<close> starts, and two outputs of its child: three tool
  starts and nothing else, and three tool starts with one text delta. The chunks do not
  end where the lines end.
\<close>

definition r_busy :: run where
  "r_busy = fst (start_run ctx_cloud 1000 ''list files'' 0 w_team)"

definition three_tools :: "string list" where
  "three_tools = [tool_line @ [CHR 0x0A] @ tool_line, [CHR 0x0A], tool_line @ [CHR 0x0A]]"

definition tools_and_text :: "string list" where
  "tools_and_text = [tool_line @ [CHR 0x0A] @ tool_line, [CHR 0x0A] @ text_line @ [CHR 0x0A],
                     tool_line @ [CHR 0x0A]]"

text \<open>
  A directory whose three files all define the identity \<open>scout\<close>, in three spellings; the
  same directory with the first file alone; and a directory whose one file has a header
  with no \<open>name\<close> field.
\<close>

definition scout_a_md :: string where
  "scout_a_md = ''---'' @ [CHR 0x0A] @ ''name: Scout'' @ [CHR 0x0A] @ ''---'' @ [CHR 0x0A] @ ''First.''"

definition scout_b_md :: string where
  "scout_b_md = ''---'' @ [CHR 0x0A] @ ''name: scout'' @ [CHR 0x0A] @ ''---'' @ [CHR 0x0A] @ ''Second.''"

definition scout_c_md :: string where
  "scout_c_md = ''---'' @ [CHR 0x0A] @ ''name: SCOUT'' @ [CHR 0x0A] @ ''---'' @ [CHR 0x0A] @ ''Third.''"

definition files_scouts :: fs where
  "files_scouts =
     \<lparr>existsSync = (\<lambda>p. p = ''/p/agents''),
      readdirSync = (\<lambda>p. if p = ''/p/agents'' then Some [''a.md'', ''b.md'', ''c.md''] else None),
      readFileSync = (\<lambda>p. if p = ''/p/agents/a.md'' then Some scout_a_md
                             else if p = ''/p/agents/b.md'' then Some scout_b_md
                             else if p = ''/p/agents/c.md'' then Some scout_c_md
                             else None)\<rparr>"

definition files_scout_alone :: fs where
  "files_scout_alone =
     \<lparr>existsSync = (\<lambda>p. p = ''/p/agents''),
      readdirSync = (\<lambda>p. if p = ''/p/agents'' then Some [''a.md''] else None),
      readFileSync = (\<lambda>p. if p = ''/p/agents/a.md'' then Some scout_a_md else None)\<rparr>"

definition scout_first :: AgentDef where
  "scout_first = \<lparr>name = ''Scout'', description = [], tools = ''read,grep,find,ls'', model = [],
                   thinking = [], systemPrompt = ''First.'', file = ''/p/agents/a.md''\<rparr>"

definition noname_md :: string where
  "noname_md = ''---'' @ [CHR 0x0A] @ ''description: no name field'' @ [CHR 0x0A] @ ''---'' @ [CHR 0x0A]
               @ ''Body text.''"

definition files_noname :: fs where
  "files_noname =
     \<lparr>existsSync = (\<lambda>p. p = ''/p/agents''),
      readdirSync = (\<lambda>p. if p = ''/p/agents'' then Some [''fallback-name.md''] else None),
      readFileSync = (\<lambda>p. if p = ''/p/agents/fallback-name.md'' then Some noname_md else None)\<rparr>"

section \<open>The capability cache\<close>

lemma checkOllamaModel_hit:
  "mc m = Some c \<Longrightarrow> checkOllamaModel nw mc m = (c, mc, [])"
  by (simp add: checkOllamaModel_def)

lemma checkOllamaModel_miss_cases:
  assumes "mc m = None" and "checkOllamaModel nw mc m = (r, mc', reqs)"
  shows "(reachable r \<and> mc' = mc(m \<mapsto> r) \<and> (show_api nw m = ShowNotOk \<or> (\<exists>i. show_api nw m = ShowOk i)))
       \<or> (\<not> reachable r \<and> mc' = mc \<and> (show_api nw m = ShowFailed \<or> show_api nw m = ShowBadBody))
       \<or> (reachable r \<and> mc' = mc \<and> throws_after_reachable (show_api nw m))"
  using assms
  by (cases "show_api nw m") (auto simp: checkOllamaModel_def Let_def)

lemma checkOllamaModel_sends:
  "mc m = None \<Longrightarrow> ShowRequest m \<in> set (snd (snd (checkOllamaModel nw mc m)))"
  by (cases "show_api nw m") (auto simp: checkOllamaModel_def Let_def)

text \<open>
  What holds of a call that finds nothing in the cache, whatever the host answers: a
  result that is stored says \<open>reachable\<close>, and every later call returns it and sends no
  request; an unreachable result leaves the cache as it was, so the next call sends the
  probe again; the model-not-installed answer is stored with its empty capability list;
  the cache never comes to hold an unreachable result.
\<close>

lemma checkOllamaModel_stored_is_reachable:
  assumes miss: "mc m = None"
      and call: "checkOllamaModel nw mc m = (r, mc', reqs)"
  shows "(mc' m = Some r \<longrightarrow> reachable r \<and> (\<forall>nw'. checkOllamaModel nw' mc' m = (r, mc', [])))
       \<and> (\<not> reachable r \<longrightarrow> mc' = mc \<and> (\<forall>nw'. ShowRequest m \<in> set (snd (snd (checkOllamaModel nw' mc' m)))))
       \<and> (show_api nw m = ShowFailed \<longrightarrow> \<not> reachable r)
       \<and> (show_api nw m = ShowNotOk \<longrightarrow> reachable r \<and> capabilities r = [] \<and> mc' m = Some r)
       \<and> ((\<forall>k v. mc k = Some v \<longrightarrow> reachable v) \<longrightarrow> (\<forall>k v. mc' k = Some v \<longrightarrow> reachable v))"
proof -
  from checkOllamaModel_miss_cases[OF miss call]
  consider (stored) "reachable r" "mc' = mc(m \<mapsto> r)"
      "show_api nw m = ShowNotOk \<or> (\<exists>i. show_api nw m = ShowOk i)"
    | (dropped) "\<not> reachable r" "mc' = mc"
      "show_api nw m = ShowFailed \<or> show_api nw m = ShowBadBody"
    | (thrown) "reachable r" "mc' = mc" "throws_after_reachable (show_api nw m)"
    by blast
  then show ?thesis
  proof cases
    case stored
    have again: "\<forall>nw'. checkOllamaModel nw' mc' m = (r, mc', [])"
      using stored(2) by (simp add: checkOllamaModel_hit)
    have caps: "show_api nw m = ShowNotOk \<longrightarrow> capabilities r = []"
      using call miss by (auto simp: checkOllamaModel_def Let_def)
    show ?thesis using stored again caps by auto
  next
    case dropped
    have again: "\<forall>nw'. ShowRequest m \<in> set (snd (snd (checkOllamaModel nw' mc' m)))"
      using dropped(2) miss by (simp add: checkOllamaModel_sends)
    show ?thesis using dropped again miss by auto
  next
    case thrown
    show ?thesis using thrown miss by auto
  qed
qed

text \<open>
  When no read of the body throws, the result is stored exactly when it says
  \<open>reachable\<close>.
\<close>

lemma checkOllamaModel_caches_unless_thrown:
  assumes miss: "mc m = None"
      and call: "checkOllamaModel nw mc m = (r, mc', reqs)"
      and sound: "\<not> throws_after_reachable (show_api nw m)"
  shows "(mc' m = Some r \<longleftrightarrow> reachable r)
       \<and> (reachable r \<longrightarrow> mc' = mc(m \<mapsto> r) \<and> (\<forall>nw'. checkOllamaModel nw' mc' m = (r, mc', [])))"
proof -
  from checkOllamaModel_miss_cases[OF miss call] sound
  consider (stored) "reachable r" "mc' = mc(m \<mapsto> r)"
    | (dropped) "\<not> reachable r" "mc' = mc"
    by blast
  then show ?thesis
  proof cases
    case stored
    then show ?thesis by (simp add: checkOllamaModel_hit)
  next
    case dropped
    then show ?thesis using miss by simp
  qed
qed

text \<open>
  When a read of the body throws after \<open>result.reachable = true\<close>, the \<open>catch\<close> returns
  a result that says \<open>reachable\<close> and stores nothing, so the next call for the same
  identifier sends the probe again.
\<close>

lemma checkOllamaModel_thrown_not_cached:
  assumes miss: "mc m = None"
      and call: "checkOllamaModel nw mc m = (r, mc', reqs)"
      and thrown: "throws_after_reachable (show_api nw m)"
  shows "reachable r \<and> mc' = mc \<and> mc' m = None \<and> reqs = [ShowRequest m]
       \<and> (\<forall>nw'. ShowRequest m \<in> set (snd (snd (checkOllamaModel nw' mc' m))))"
proof -
  have "reachable r \<and> mc' = mc \<and> reqs = [ShowRequest m]"
    using miss call thrown
    by (cases "show_api nw m") (auto simp: checkOllamaModel_def Let_def)
  then show ?thesis using miss by (simp add: checkOllamaModel_sends)
qed

text \<open>
  C3. The capability checker is to store a result exactly when the result says
  \<open>reachable\<close>, and to answer every later call for the same identifier from the cache.
  \<open>checkOllamaModel\<close> does not do so when the host answers \<open>/api/show\<close> with status 200
  and the JSON body \<open>null\<close>: \<open>result.reachable = true\<close> has run when
  \<open>info.capabilities\<close> throws, and the \<open>catch\<close> written for an unreachable host returns
  the result without storing it. For the identifier \<open>phi3\<close> and an empty cache, the
  call returns a result that says \<open>reachable\<close>, leaves the cache empty, and a second
  call sends the probe again. The result is, field for field, the one the
  model-not-installed answer gives, which the sibling branch stores.
\<close>

theorem checkOllamaModel_null_body_not_cached:
  "checkOllamaModel nw_null Map.empty ''phi3'' = (phi3_missing, Map.empty, [ShowRequest ''phi3''])
   \<and> reachable phi3_missing
   \<and> fst (snd (checkOllamaModel nw_null Map.empty ''phi3'')) ''phi3'' = None
   \<and> checkOllamaModel nw_null (fst (snd (checkOllamaModel nw_null Map.empty ''phi3''))) ''phi3'' =
       (phi3_missing, Map.empty, [ShowRequest ''phi3''])
   \<and> checkOllamaModel nw_missing Map.empty ''phi3'' =
       (phi3_missing, [''phi3'' \<mapsto> phi3_missing], [ShowRequest ''phi3''])"
  by (simp add: checkOllamaModel_def nw_null_def nw_missing_def phi3_missing_def)

section \<open>Rejections of a dispatch\<close>





text \<open>
  C1. A dispatch that names an agent whose state is \<open>running\<close> returns the
  already-running rejection, with exit indicator 1 and elapsed time 0. The whole state
  of the extension is what it was: no counter is reset, no status changes, no ticker is
  started, no probe is sent and no process is spawned.
\<close>

theorem dispatch_running_rejected:
  assumes "map_of (agentStates w) (toLowerCase agentName) = Some a"
      and "status (store w a) = Running"
  shows "dispatchAgent nw ctx now agentName tsk w =
           (Rejected (already_running_result (store w a)), w, [])
       \<and> exitCode (already_running_result (store w a)) = 1
       \<and> dispatch_result.elapsed (already_running_result (store w a)) = 0"
  using assms by (simp add: dispatchAgent_def already_running_result_def)

theorem dispatch_running_witness:
  "dispatchAgent nw_down ctx_cloud 2000 ''BUILDER'' ''again'' w_busy =
     (Rejected (already_running_result (store w_busy 0)), w_busy, [])"
proof -
  have h1: "map_of (agentStates w_busy) (toLowerCase ''BUILDER'') = Some 0" by code_simp
  have h2: "status (store w_busy 0) = Running" by code_simp
  show ?thesis using dispatch_running_rejected[OF h1 h2] by simp
qed



section \<open>The event stream\<close>

lemma split_str_nonempty [simp]: "split_str sep s \<noteq> []"
  by (induction s) (auto split: list.splits)

lemma split_str_append:
  "split_str sep (x @ y) = butlast (split_str sep x) @ split_str sep (last (split_str sep x) @ y)"
proof (induction x)
  case Nil
  then show ?case by simp
next
  case (Cons c cs)
  show ?case
  proof (cases "c = sep")
    case True
    then show ?thesis using Cons by simp
  next
    case False
    obtain l ls where sp: "split_str sep cs = l # ls"
      by (cases "split_str sep cs") auto
    show ?thesis
    proof (cases ls)
      case Nil
      then show ?thesis using False sp Cons by simp
    next
      case (Cons l2 ls2)
      then show ?thesis using False sp Cons.IH by simp
    qed
  qed
qed

lemma final_chunks_line_text:
  "final_chunks h buf chunks = chunks @ (case line_text h buf of None \<Rightarrow> [] | Some t \<Rightarrow> [t])"
  by (auto simp: final_chunks_def line_text_def decode_line_def split: option.splits)

lemma handle_line_tools:
  "toolCount (fst (handle_line h cw sc line)) = toolCount (fst sc) + (if is_tool_start h line then 1 else 0)"
  by (auto simp: handle_line_def handle_event_def is_tool_start_def decode_line_def usage_update_def Let_def
           split: option.splits sum.splits)

lemma handle_line_texts:
  "snd (handle_line h cw sc line) = snd sc @ (case line_text h line of None \<Rightarrow> [] | Some t \<Rightarrow> [t])"
  by (auto simp: handle_line_def handle_event_def line_text_def decode_line_def Let_def
           split: option.splits sum.splits)

lemma handle_line_pct:
  "\<not> 0 < cw \<Longrightarrow> contextPct (fst (handle_line h cw sc line)) = contextPct (fst sc)"
  by (auto simp: handle_line_def handle_event_def usage_update_def Let_def
           split: option.splits sum.splits)

lemma handle_line_frame:
  "def (fst (handle_line h cw sc line)) = def (fst sc)
 \<and> status (fst (handle_line h cw sc line)) = status (fst sc)
 \<and> task (fst (handle_line h cw sc line)) = task (fst sc)
 \<and> AgentState.elapsed (fst (handle_line h cw sc line)) = AgentState.elapsed (fst sc)
 \<and> sessionFile (fst (handle_line h cw sc line)) = sessionFile (fst sc)
 \<and> runCount (fst (handle_line h cw sc line)) = runCount (fst sc)
 \<and> timer (fst (handle_line h cw sc line)) = timer (fst sc)"
  by (auto simp: handle_line_def handle_event_def usage_update_def Let_def
           split: option.splits sum.splits)

lemma foldl_handle_line_tools:
  "toolCount (fst (foldl (handle_line h cw) sc lines)) =
     toolCount (fst sc) + length (filter (is_tool_start h) lines)"
  by (induction lines arbitrary: sc) (simp_all add: handle_line_tools)

lemma foldl_handle_line_texts:
  "snd (foldl (handle_line h cw) sc lines) = snd sc @ List.map_filter (line_text h) lines"
  by (induction lines arbitrary: sc)
     (simp_all add: handle_line_texts List.map_filter_simps split: option.splits)

lemma foldl_handle_line_pct:
  "\<not> 0 < cw \<Longrightarrow> contextPct (fst (foldl (handle_line h cw) sc lines)) = contextPct (fst sc)"
  by (induction lines arbitrary: sc) (simp_all add: handle_line_pct)

lemma foldl_handle_line_frame:
  "def (fst (foldl (handle_line h cw) sc lines)) = def (fst sc)
 \<and> status (fst (foldl (handle_line h cw) sc lines)) = status (fst sc)
 \<and> task (fst (foldl (handle_line h cw) sc lines)) = task (fst sc)
 \<and> AgentState.elapsed (fst (foldl (handle_line h cw) sc lines)) = AgentState.elapsed (fst sc)
 \<and> sessionFile (fst (foldl (handle_line h cw) sc lines)) = sessionFile (fst sc)
 \<and> runCount (fst (foldl (handle_line h cw) sc lines)) = runCount (fst sc)
 \<and> timer (fst (foldl (handle_line h cw) sc lines)) = timer (fst sc)"
  by (induction lines arbitrary: sc) (simp_all add: handle_line_frame)

lemma on_data_compose:
  "on_data h c2 (on_data h c1 wr) = on_data h (c1 @ c2) wr"
proof (cases wr)
  case (Pair w r)
  have sp: "split_str CHR 0x0A (buffer r @ c1 @ c2) =
            butlast (split_str CHR 0x0A (buffer r @ c1))
            @ split_str CHR 0x0A (last (split_str CHR 0x0A (buffer r @ c1)) @ c2)"
    using split_str_append[of "CHR 0x0A" "buffer r @ c1" c2] by simp
  show ?thesis
    unfolding Pair
    by (simp add: on_data_def Let_def sp butlast_append)
qed

lemma on_stream_concat:
  "on_stream h (c # cs) wr = on_data h (concat (c # cs)) wr"
proof (induction cs arbitrary: c wr)
  case Nil
  then show ?case by (simp add: on_stream_def)
next
  case (Cons c2 cs)
  have "on_stream h (c # c2 # cs) wr = on_stream h (c2 # cs) (on_data h c wr)"
    by (simp add: on_stream_def)
  also have "\<dots> = on_data h (concat (c2 # cs)) (on_data h c wr)"
    by (rule Cons.IH)
  also have "\<dots> = on_data h (c @ concat (c2 # cs)) wr"
    by (rule on_data_compose)
  finally show ?case by simp
qed

lemma on_data_empty:
  "buffer r = [] \<Longrightarrow> on_data h [] (w, r) = (w, r)"
  by (simp add: on_data_def Let_def)

lemma on_stream_fresh:
  "buffer r = [] \<Longrightarrow> on_stream h chunks (w, r) = on_data h (concat chunks) (w, r)"
proof (cases chunks)
  case Nil
  assume "buffer r = []"
  then show ?thesis using Nil by (simp add: on_stream_def on_data_empty)
next
  case (Cons c cs)
  then show ?thesis using on_stream_concat[of h c cs "(w, r)"] by simp
qed

lemma on_data_world:
  "fst (on_data h chunk (w, r)) =
     w\<lparr>store := (store w)(run_state r :=
          fst (foldl (handle_line h (contextWindow w)) (store w (run_state r), textChunks r)
                 (complete_lines (buffer r @ chunk))))\<rparr>"
  by (simp add: on_data_def Let_def complete_lines_def)

lemma on_data_run:
  "snd (on_data h chunk (w, r)) =
     r\<lparr>textChunks := snd (foldl (handle_line h (contextWindow w)) (store w (run_state r), textChunks r)
                             (complete_lines (buffer r @ chunk))),
       buffer := last (split_str CHR 0x0A (buffer r @ chunk))\<rparr>"
  by (simp add: on_data_def Let_def complete_lines_def)

lemma on_data_pct:
  assumes "\<not> 0 < contextWindow w"
  shows "contextPct (store (fst (on_data h chunk (w, r))) a) = contextPct (store w a)
       \<and> contextWindow (fst (on_data h chunk (w, r))) = contextWindow w"
  using assms by (simp add: on_data_world foldl_handle_line_pct)

lemma on_stream_pct:
  "\<not> 0 < contextWindow (fst wr) \<Longrightarrow>
     contextPct (store (fst (on_stream h chunks wr)) a) = contextPct (store (fst wr) a)"
proof (induction chunks arbitrary: wr)
  case Nil
  then show ?case by (simp add: on_stream_def)
next
  case (Cons c cs)
  obtain w r where wr: "wr = (w, r)" by (cases wr) auto
  have step: "on_stream h (c # cs) (w, r) = on_stream h cs (on_data h c (w, r))"
    by (simp add: on_stream_def)
  have pre: "\<not> 0 < contextWindow w"
    using Cons.prems by (simp add: wr)
  have cw: "\<not> 0 < contextWindow (fst (on_data h c (w, r)))"
    using pre on_data_pct[of w h c r] by simp
  have "contextPct (store (fst (on_stream h cs (on_data h c (w, r)))) a) =
        contextPct (store (fst (on_data h c (w, r))) a)"
    by (rule Cons.IH[OF cw])
  also have "\<dots> = contextPct (store w a)"
    using on_data_pct[OF pre, of h c r a] by simp
  finally show ?case by (simp add: step wr)
qed

lemma on_close_pct:
  "contextPct (store (fst (on_close h code now (w, r))) a) = contextPct (store w a)"
  by (simp add: on_close_def Let_def)

text \<open>
  C9. Unless the context-window size is positive, nothing the child writes changes the
  context-window percentage of any state object, and neither does the close of the
  stream: with the size unknown or zero the percentage stays what it was, whatever usage
  the events report, so a percentage that changed was computed with a positive divisor.
\<close>

theorem context_pct_needs_window:
  assumes "\<not> 0 < contextWindow w"
  shows "contextPct (store (fst (on_stream h chunks (w, r))) a) = contextPct (store w a)
       \<and> contextPct (store (fst (on_close h code now (on_stream h chunks (w, r)))) a) = contextPct (store w a)"
proof -
  have s: "contextPct (store (fst (on_stream h chunks (w, r))) a) = contextPct (store w a)"
    using on_stream_pct[of "(w, r)" h chunks a] assms by simp
  obtain w2 r2 where wr2: "on_stream h chunks (w, r) = (w2, r2)"
    by (cases "on_stream h chunks (w, r)") auto
  show ?thesis using s on_close_pct[of h code now w2 r2 a] by (simp add: wr2)
qed

theorem context_pct_witness:
  "contextWindow w_busy = 0
   \<and> contextPct (store (fst (on_stream h_demo [usage_line @ [CHR 0x0A]] (w_busy, r_busy))) 0) =
      contextPct (store w_busy 0)"
proof -
  have cw: "contextWindow w_busy = 0" by code_simp
  then have "\<not> 0 < contextWindow w_busy" by simp
  from context_pct_needs_window[OF this] cw show ?thesis by blast
qed

text \<open>
  With a positive window a message that carries usage does set the percentage, to the
  ratio of the reported input tokens to the window; with a window of 200000 tokens the
  usage report of the example sets it to 25.
\<close>

lemma usage_update_value:
  "0 < cw \<Longrightarrow> truthy (get_opt msg ''usage'') \<Longrightarrow>
     contextPct (usage_update h cw msg s) =
       number_of h (get_opt (get_opt msg ''usage'') ''input'') / cw * 100"
  by (simp add: usage_update_def)

lemma usage_line_updates:
  "contextPct (store (fst (on_stream h_demo [usage_line @ [CHR 0x0A]]
       (w_busy\<lparr>contextWindow := 200000\<rparr>, r_busy))) 0) = 25"
  by code_simp

section \<open>The end of a run\<close>

text \<open>
  A dispatch that spawns its child starts one ticker, and the state's \<open>timer\<close> names
  it: this is the interval the \<open>close\<close> handler clears.
\<close>

lemma dispatch_starts_ticker:
  assumes "dispatchAgent nw ctx now agentName tsk w = (Spawned r, w1, reqs)"
  shows "timer (store w1 (run_state r)) = Some (nextInterval w)
       \<and> intervals w1 (nextInterval w) = Some (run_state r, now)
       \<and> startTime r = now"
proof -
  obtain a where found: "map_of (agentStates w) (toLowerCase agentName) = Some a"
    using assms by (cases "map_of (agentStates w) (toLowerCase agentName)")
                   (auto simp: dispatchAgent_def)
  have idle: "status (store w a) \<noteq> Running"
    using assms found by (auto simp: dispatchAgent_def split: if_splits)
  obtain mc' where run: "start_run ctx now tsk a (w\<lparr>modelCheckCache := mc'\<rparr>) = (r, w1)"
    using assms found idle
    by (auto simp: dispatchAgent_def split: prod.splits option.splits)
  show ?thesis
    using run by (auto simp: start_run_def Let_def)
qed

text \<open>
  C4. When the child of a dispatch exits, the \<open>close\<close> handler sets the status of the
  run's state object to \<open>done\<close> if the exit code is 0 and to \<open>error\<close> otherwise (also
  when a signal ended the child and there is no code). In both cases it sets the elapsed
  time to the time since the start of the run and clears the interval the state's
  \<open>timer\<close> names, so that ticker updates nothing any more. The session file is recorded
  on the state only when the exit code is 0; after any other exit the field is what it
  was before. No other state object changes.
\<close>

theorem on_close_reconciles:
  assumes "on_close h code now (w, r) = (w', r')"
  shows "status (store w' (run_state r)) = (if code = Some 0 then Done else Error)
       \<and> AgentState.elapsed (store w' (run_state r)) = now - startTime r
       \<and> intervals w' = clearInterval (timer (store w (run_state r))) (intervals w)
       \<and> (\<forall>i. timer (store w (run_state r)) = Some i \<longrightarrow>
              intervals w' i = None \<and> (\<forall>t. on_tick i t w' = w'))
       \<and> sessionFile (store w' (run_state r)) =
           (if code = Some 0 then Some (agentSessionFile r) else sessionFile (store w (run_state r)))
       \<and> (\<forall>a. a \<noteq> run_state r \<longrightarrow> store w' a = store w a)"
  using assms by (auto simp: on_close_def Let_def clearInterval_def on_tick_def)

theorem on_close_witness:
  "status (store (fst (on_close h_demo (Some 1) 5000 (w_busy, r_busy))) 0) = Error
   \<and> AgentState.elapsed (store (fst (on_close h_demo (Some 1) 5000 (w_busy, r_busy))) 0) = 4000
   \<and> intervals (fst (on_close h_demo (Some 1) 5000 (w_busy, r_busy))) 0 = None
   \<and> sessionFile (store (fst (on_close h_demo (Some 1) 5000 (w_busy, r_busy))) 0) = None"
proof -
  obtain w' r' where eq: "on_close h_demo (Some 1) 5000 (w_busy, r_busy) = (w', r')"
    by (cases "on_close h_demo (Some 1) 5000 (w_busy, r_busy)") auto
  have a: "run_state r_busy = 0" by code_simp
  have st: "startTime r_busy = 1000" by code_simp
  have tm: "timer (store w_busy 0) = Some 0" by code_simp
  have sf: "sessionFile (store w_busy 0) = None" by code_simp
  show ?thesis
    using on_close_reconciles[OF eq] tm sf by (simp add: eq a st clearInterval_def)
qed

lemma preflight_nonlocal:
  "\<not> isLocalProvider (fst (parseModelString em)) \<Longrightarrow> preflight nw mc em = (None, mc, [])"
  by (auto simp: preflight_def split: prod.splits)

lemma dispatch_spawns:
  assumes found: "map_of (agentStates w) (toLowerCase agentName) = Some a"
      and idle: "status (store w a) \<noteq> Running"
      and cloud: "\<not> isLocalProvider (fst (parseModelString (effective_model ctx (store w a))))"
  shows "dispatchAgent nw ctx now agentName tsk w =
           (Spawned (fst (start_run ctx now tsk a w)), snd (start_run ctx now tsk a w), [])"
  using found idle preflight_nonlocal[OF cloud, of nw "modelCheckCache w"]
  by (simp add: dispatchAgent_def blocks_def split: prod.splits)

text \<open>
  C5, as the code has it. An agent that exists, is not running and whose effective
  model is not local is dispatched; its child writes an output in which exactly three
  complete lines are tool starts (in any chunks, among any other lines) and exits with
  code 0. Then the state ends with status \<open>done\<close> and a tool counter of 3. Its last
  output fragment is the last non-blank line of the text the child streamed, which is
  empty when it streamed no text; the dispatch resolves with that text, exit code 0 and
  the elapsed time.
\<close>

theorem dispatch_three_tools_done:
  assumes found: "map_of (agentStates w) (toLowerCase agentName) = Some a"
      and idle: "status (store w a) \<noteq> Running"
      and cloud: "\<not> isLocalProvider (fst (parseModelString (effective_model ctx (store w a))))"
      and three: "length (filter (is_tool_start h) (complete_lines (concat chunks))) = 3"
  shows "\<exists>r w1 w3 r3.
           dispatchAgent nw ctx now agentName tsk w = (Spawned r, w1, [])
         \<and> on_close h (Some 0) later (on_stream h chunks (w1, r)) = (w3, r3)
         \<and> status (store w3 a) = Done
         \<and> toolCount (store w3 a) = 3
         \<and> lastWork (store w3 a) = last_nonblank (transcript h (concat chunks))
         \<and> resolved r3 = Some \<lparr>output = transcript h (concat chunks), exitCode = 0,
                                elapsed = later - now\<rparr>"
proof -
  define r where "r = fst (start_run ctx now tsk a w)"
  define w1 where "w1 = snd (start_run ctx now tsk a w)"
  have disp: "dispatchAgent nw ctx now agentName tsk w = (Spawned r, w1, [])"
    unfolding r_def w1_def by (rule dispatch_spawns[OF found idle cloud])
  have r_fields: "run_state r = a" "startTime r = now" "textChunks r = []" "buffer r = []"
      "resolved r = None"
    by (simp_all add: r_def start_run_def Let_def)
  have w1_state: "toolCount (store w1 a) = 0"
    by (simp add: w1_def start_run_def Let_def)
  define sc where "sc = foldl (handle_line h (contextWindow w1)) (store w1 a, [])
                          (complete_lines (concat chunks))"
  have stream: "on_stream h chunks (w1, r) =
      (w1\<lparr>store := (store w1)(a := fst sc)\<rparr>,
       r\<lparr>textChunks := snd sc, buffer := last (split_str CHR 0x0A (concat chunks))\<rparr>)"
    using on_data_world[of h "concat chunks" w1 r] on_data_run[of h "concat chunks" w1 r]
    by (simp add: on_stream_fresh r_fields sc_def prod_eq_iff)
  have tools: "toolCount (fst sc) = 3"
    using three by (simp add: sc_def foldl_handle_line_tools w1_state)
  have texts: "snd sc = List.map_filter (line_text h) (complete_lines (concat chunks))"
    by (simp add: sc_def foldl_handle_line_texts)
  have full: "concat (final_chunks h (last (split_str CHR 0x0A (concat chunks))) (snd sc)) =
              transcript h (concat chunks)"
    by (simp add: final_chunks_line_text texts transcript_def)
  obtain w3 r3 where fin: "on_close h (Some 0) later (on_stream h chunks (w1, r)) = (w3, r3)"
    by (cases "on_close h (Some 0) later (on_stream h chunks (w1, r))") auto
  have "status (store w3 a) = Done \<and> toolCount (store w3 a) = 3
      \<and> lastWork (store w3 a) = last_nonblank (transcript h (concat chunks))
      \<and> resolved r3 = Some \<lparr>output = transcript h (concat chunks), exitCode = 0,
                             elapsed = later - now\<rparr>"
    using fin tools full
    by (auto simp: stream on_close_def Let_def r_fields resolve_def)
  with disp fin show ?thesis by blast
qed

theorem dispatch_three_tools_witness:
  "\<exists>r w1 w3 r3.
     dispatchAgent nw_down ctx_cloud 1000 ''builder'' ''list files'' w_team = (Spawned r, w1, [])
   \<and> on_close h_demo (Some 0) 5000 (on_stream h_demo tools_and_text (w1, r)) = (w3, r3)
   \<and> status (store w3 0) = Done
   \<and> toolCount (store w3 0) = 3
   \<and> lastWork (store w3 0) = last_nonblank (transcript h_demo (concat tools_and_text))
   \<and> resolved r3 = Some \<lparr>output = transcript h_demo (concat tools_and_text), exitCode = 0,
                          elapsed = 5000 - 1000\<rparr>"
proof -
  have found: "map_of (agentStates w_team) (toLowerCase ''builder'') = Some 0" by code_simp
  have idle: "status (store w_team 0) \<noteq> Running" by code_simp
  have cloud: "\<not> isLocalProvider (fst (parseModelString (effective_model ctx_cloud (store w_team 0))))"
    by code_simp
  have three: "length (filter (is_tool_start h_demo) (complete_lines (concat tools_and_text))) = 3"
    by code_simp
  show ?thesis by (rule dispatch_three_tools_done[OF found idle cloud three])
qed

lemma transcript_demo: "last_nonblank (transcript h_demo (concat tools_and_text)) = ''3 files''"
  by code_simp

text \<open>
  C5 as stated asks for a non-empty last output fragment. A child that writes
  its three tool starts and no text, and exits with code 0, leaves the fragment empty.
\<close>

theorem three_tools_no_text_counterexample:
  "fst (dispatchAgent nw_down ctx_cloud 1000 ''builder'' ''list files'' w_team) = Spawned r_busy
   \<and> \<not> isLocalProvider (fst (parseModelString (effective_model ctx_cloud (store w_team 0))))
   \<and> length (filter (is_tool_start h_demo) (complete_lines (concat three_tools))) = 3
   \<and> status (store (fst (on_close h_demo (Some 0) 5000 (on_stream h_demo three_tools (w_busy, r_busy)))) 0) = Done
   \<and> toolCount (store (fst (on_close h_demo (Some 0) 5000 (on_stream h_demo three_tools (w_busy, r_busy)))) 0) = 3
   \<and> lastWork (store (fst (on_close h_demo (Some 0) 5000 (on_stream h_demo three_tools (w_busy, r_busy)))) 0) = []"
  by code_simp

section \<open>Loading agents and teams\<close>

lemma frontmatter_line_no_name:
  assumes "fm ''name'' = None"
      and "case indexOf CHR '':'' line of None \<Rightarrow> True | Some idx \<Rightarrow> trim (take idx line) \<noteq> ''name''"
  shows "frontmatter_line fm line ''name'' = None"
  using assms by (auto simp: frontmatter_line_def split: option.splits)

lemma foldl_frontmatter_no_name:
  assumes "fm ''name'' = None"
      and "list_all (\<lambda>line. case indexOf CHR '':'' line of None \<Rightarrow> True
                             | Some idx \<Rightarrow> trim (take idx line) \<noteq> ''name'') lines"
  shows "foldl frontmatter_line fm lines ''name'' = None"
  using assms
  by (induction lines arbitrary: fm) (simp_all add: frontmatter_line_no_name)

text \<open>
  C7, as the code has it. A file that can be read and has a well-formed frontmatter
  header, none of whose lines has the key \<open>name\<close>, yields no definition:
  \<open>parseAgentFile\<close> returns \<open>null\<close> and the directory scan passes over the file. The
  file's base name is not used as the identity.
\<close>

theorem parseAgentFile_needs_name:
  assumes rd: "readFileSync files (join_path [dir, fname]) = Some raw"
      and fm: "frontmatter_match raw = Some (header, body)"
      and noname: "list_all (\<lambda>line. case indexOf CHR '':'' line of None \<Rightarrow> True
                             | Some idx \<Rightarrow> trim (take idx line) \<noteq> ''name'')
                     (split_str CHR 0x0A header)"
  shows "parseAgentFile files (join_path [dir, fname]) = None
       \<and> scan_file files dir st fname = st"
proof -
  have "foldl frontmatter_line Map.empty (split_str CHR 0x0A header) ''name'' = None"
    by (rule foldl_frontmatter_no_name[OF _ noname]) simp
  then have p: "parseAgentFile files (join_path [dir, fname]) = None"
    using rd fm by (simp add: parseAgentFile_def field_or_def Let_def)
  then show ?thesis by (simp add: scan_file_def)
qed

theorem parseAgentFile_noname_witness:
  "parseAgentFile files_noname (join_path [''/p/agents'', ''fallback-name.md'']) = None
   \<and> scan_file files_noname ''/p/agents'' ([], {}) ''fallback-name.md'' = ([], {})"
proof -
  have rd: "readFileSync files_noname (join_path [''/p/agents'', ''fallback-name.md'']) = Some noname_md"
    by code_simp
  have fm: "frontmatter_match noname_md = Some (''description: no name field'', ''Body text.'')"
    by code_simp
  have noname: "list_all (\<lambda>line. case indexOf CHR '':'' line of None \<Rightarrow> True
                             | Some idx \<Rightarrow> trim (take idx line) \<noteq> ''name'')
                     (split_str CHR 0x0A ''description: no name field'')"
    by code_simp
  show ?thesis by (rule parseAgentFile_needs_name[OF rd fm noname])
qed

text \<open>
  C7 as stated promises a definition named after the file. The file
  \<open>fallback-name.md\<close>, whose header holds a description and no name, is rejected, and a
  scan of its directory loads nothing.
\<close>

theorem missing_name_rejected_counterexample:
  "frontmatter_match noname_md = Some (''description: no name field'', ''Body text.'')
   \<and> parseAgentFile files_noname ''/p/agents/fallback-name.md'' = None
   \<and> scanAgentDirs files_noname ''/p'' = []"
  by code_simp

lemma scan_file_skipped:
  "skipped files dir (snd st) fname \<Longrightarrow> scan_file files dir st fname = st"
  by (auto simp: skipped_def scan_file_def split: option.splits)

lemma foldl_scan_skipped:
  "list_all (skipped files dir (snd st)) fnames \<Longrightarrow> foldl (scan_file files dir) st fnames = st"
  by (induction fnames) (simp_all add: scan_file_skipped)

lemma scan_dir_missing:
  "\<not> existsSync files dir \<Longrightarrow> scan_dir files st dir = st"
  by (simp add: scan_dir_def)

text \<open>
  C6, as the code has it. When the first file of the \<open>agents\<close> directory defines an
  identity and every other file of the directory defines the same identity up to letter
  case (as the files defining \<open>Scout\<close>, \<open>scout\<close> and \<open>SCOUT\<close> do), the scan retains exactly
  one definition, that of the first file. The later files are passed over without a
  trace: what the scan returns is the list of retained definitions, the same list it
  returns when the directory holds the first file alone.
\<close>

theorem scan_first_identity_wins:
  assumes dir: "existsSync files (join_path [cwd, ''agents''])"
      and listing: "readdirSync files (join_path [cwd, ''agents'']) = Some (f1 # rest)"
      and others: "\<not> existsSync files (join_path [cwd, ''.claude'', ''agents''])"
                  "\<not> existsSync files (join_path [cwd, ''.pi'', ''agents''])"
      and first: "endsWith f1 ''.md''"
                 "parseAgentFile files (join_path [join_path [cwd, ''agents''], f1]) = Some d1"
      and dups: "list_all (\<lambda>f. \<exists>d. parseAgentFile files (join_path [join_path [cwd, ''agents''], f]) = Some d
                               \<and> toLowerCase (name d) = toLowerCase (name d1)) rest"
  shows "scanAgentDirs files cwd = [d1]
       \<and> scanAgentDirs files cwd =
           scanAgentDirs (files\<lparr>readdirSync := (readdirSync files)(join_path [cwd, ''agents''] := Some [f1])\<rparr>) cwd"
proof -
  let ?dir = "join_path [cwd, ''agents'']"
  let ?st1 = "([d1], {toLowerCase (name d1)})"
  have step1: "scan_file files ?dir ([], {}) f1 = ?st1"
    using first by (simp add: scan_file_def)
  have sk: "list_all (skipped files ?dir (snd ?st1)) rest"
    using dups by (auto simp: list_all_iff skipped_def)
  have rest: "foldl (scan_file files ?dir) ?st1 rest = ?st1"
    by (rule foldl_scan_skipped[OF sk])
  have d: "scan_dir files ([], {}) ?dir = ?st1"
    using dir listing step1 rest by (simp add: scan_dir_def)
  have all: "scanAgentDirs files cwd = [d1]"
    using d others by (simp add: scanAgentDirs_def scan_dir_missing)
  let ?files1 = "files\<lparr>readdirSync := (readdirSync files)(?dir := Some [f1])\<rparr>"
  have pf: "\<And>p. parseAgentFile ?files1 p = parseAgentFile files p"
    by (simp add: parseAgentFile_def)
  have step1': "scan_file ?files1 ?dir ([], {}) f1 = ?st1"
    using first by (simp add: scan_file_def pf)
  have d': "scan_dir ?files1 ([], {}) ?dir = ?st1"
    using dir step1' by (simp add: scan_dir_def)
  have all': "scanAgentDirs ?files1 cwd = [d1]"
    using d' others by (simp add: scanAgentDirs_def scan_dir_missing)
  show ?thesis using all all' by simp
qed

theorem scan_three_scouts_witness:
  "scanAgentDirs files_scouts ''/p'' = [scout_first] \<and> systemPrompt scout_first = ''First.''"
proof -
  have dir: "existsSync files_scouts (join_path [''/p'', ''agents''])" by code_simp
  have listing: "readdirSync files_scouts (join_path [''/p'', ''agents'']) = Some (''a.md'' # [''b.md'', ''c.md''])"
    by code_simp
  have o1: "\<not> existsSync files_scouts (join_path [''/p'', ''.claude'', ''agents''])" by code_simp
  have o2: "\<not> existsSync files_scouts (join_path [''/p'', ''.pi'', ''agents''])" by code_simp
  have e1: "endsWith ''a.md'' ''.md''" by code_simp
  have p1: "parseAgentFile files_scouts (join_path [join_path [''/p'', ''agents''], ''a.md'']) = Some scout_first"
    by code_simp
  have pb: "parseAgentFile files_scouts (join_path [join_path [''/p'', ''agents''], ''b.md'']) =
              Some (scout_first\<lparr>name := ''scout'', systemPrompt := ''Second.'', file := ''/p/agents/b.md''\<rparr>)"
    by code_simp
  have pc: "parseAgentFile files_scouts (join_path [join_path [''/p'', ''agents''], ''c.md'']) =
              Some (scout_first\<lparr>name := ''SCOUT'', systemPrompt := ''Third.'', file := ''/p/agents/c.md''\<rparr>)"
    by code_simp
  have lb: "toLowerCase ''scout'' = toLowerCase (name scout_first)" by code_simp
  have lc: "toLowerCase ''SCOUT'' = toLowerCase (name scout_first)" by code_simp
  have dups: "list_all (\<lambda>f. \<exists>d. parseAgentFile files_scouts (join_path [join_path [''/p'', ''agents''], f]) = Some d
                               \<and> toLowerCase (name d) = toLowerCase (name scout_first)) [''b.md'', ''c.md'']"
    using pb pc lb lc by simp
  have sp: "systemPrompt scout_first = ''First.''" by (simp add: scout_first_def)
  show ?thesis
    using scan_first_identity_wins[OF dir listing o1 o2 e1 p1 dups] sp by simp
qed

text \<open>
  C6 as stated has the scan produce two collision records. The scan of the
  three files returns the one retained definition and nothing else, exactly what the
  scan of the first file alone returns; so nothing read off its result can count two
  collisions in the one directory and none in the other.
\<close>

theorem scan_reports_no_collision_counterexample:
  "scanAgentDirs files_scouts ''/p'' = [scout_first]
   \<and> scanAgentDirs files_scout_alone ''/p'' = [scout_first]
   \<and> \<not> (\<exists>report :: AgentDef list \<Rightarrow> (string \<times> string \<times> string) list.
            length (report (scanAgentDirs files_scouts ''/p'')) = 2
          \<and> length (report (scanAgentDirs files_scout_alone ''/p'')) = 0)"
proof -
  have a: "scanAgentDirs files_scouts ''/p'' = [scout_first]" by code_simp
  have b: "scanAgentDirs files_scout_alone ''/p'' = [scout_first]" by code_simp
  show ?thesis unfolding a b by auto
qed

text \<open>
  C8. If the team manifest does not exist, cannot be read, or parses to no team,
  \<open>loadAgents\<close> leaves exactly one team, \<open>all\<close>, whose members are the names of all
  loaded agent definitions in the order the scan loaded them. (Parsing itself never
  fails: a manifest that cannot be read is the one case the \<open>catch\<close> is there for.)
\<close>

theorem default_team_without_manifest:
  assumes "\<not> existsSync files (join_path [cwd, ''.pi'', ''agents'', ''teams.yaml''])
         \<or> readFileSync files (join_path [cwd, ''.pi'', ''agents'', ''teams.yaml'']) = None
         \<or> (\<exists>raw. readFileSync files (join_path [cwd, ''.pi'', ''agents'', ''teams.yaml'']) = Some raw
                  \<and> parseTeamsYaml raw = [])"
  shows "teams (loadAgents files cwd w) = [(''all'', map name (scanAgentDirs files cwd))]
       \<and> allAgentDefs (loadAgents files cwd w) = scanAgentDirs files cwd"
proof -
  have "load_teams files cwd = []"
    using assms by (auto simp: load_teams_def Let_def split: option.splits)
  then show ?thesis by (simp add: loadAgents_def Let_def)
qed

theorem default_team_witness:
  "teams (loadAgents files0 ''/p'' w_init) = [(''all'', map name (scanAgentDirs files0 ''/p''))]
   \<and> map name (scanAgentDirs files0 ''/p'') = [''builder'', ''Scout'']"
proof -
  have none: "\<not> existsSync files0 (join_path [''/p'', ''.pi'', ''agents'', ''teams.yaml''])"
    by code_simp
  have names: "map name (scanAgentDirs files0 ''/p'') = [''builder'', ''Scout'']" by code_simp
  show ?thesis
    using default_team_without_manifest[of files0 "''/p''" w_init] none names by simp
qed

text \<open>A manifest that is there and names no team parses to no team.\<close>

lemma manifest_with_no_team: "parseTeamsYaml (''# no teams yet'' @ [CHR 0x0A] @ ''  - scout'') = []"
  by code_simp

section \<open>Looking an agent up by name\<close>

lemma toLowerCase_char_idem: "toLowerCase_char (toLowerCase_char c) = toLowerCase_char c"
  by (simp add: toLowerCase_char_def)

lemma toLowerCase_upper_char: "toLowerCase_char (toUpperCase_char c) = toLowerCase_char c"
  by (simp add: toLowerCase_char_def toUpperCase_char_def)

text \<open>
  The lower-cased and the upper-cased spelling of a name have the name's own key.
\<close>

lemma toLowerCase_idem: "toLowerCase (toLowerCase s) = toLowerCase s"
  by (simp add: toLowerCase_def toLowerCase_char_idem)

lemma toLowerCase_toUpperCase: "toLowerCase (toUpperCase s) = toLowerCase s"
  by (simp add: toLowerCase_def toUpperCase_def toLowerCase_upper_char)









section \<open>Further properties of a run\<close>

text \<open>
  The \<open>close\<close> handler never changes a tool counter. An event the child wrote without
  a final newline is still in the line buffer when the stream closes, and the handler
  takes only a text delta from there: a tool start in that place is not counted.
\<close>

theorem close_keeps_tool_count:
  "toolCount (store (fst (on_close h code now (w, r))) a) = toolCount (store w a)"
  by (simp add: on_close_def Let_def)

lemma unfinished_tool_line_not_counted:
  "toolCount (store (fst (on_close h_demo (Some 0) 5000
       (on_stream h_demo [tool_line @ [CHR 0x0A] @ tool_line @ [CHR 0x0A] @ tool_line]
          (w_busy, r_busy)))) 0) = 2"
  by code_simp

text \<open>
  Single flight, one call after the other: once a dispatch has spawned its child, the
  agent's state is \<open>running\<close>, and any further dispatch under the same name is rejected
  and changes nothing, until a handler of the run changes the state.
\<close>

theorem second_dispatch_rejected:
  assumes "dispatchAgent nw ctx now agentName tsk w = (Spawned r, w1, reqs)"
  shows "status (store w1 (run_state r)) = Running
       \<and> dispatchAgent nw2 ctx2 later agentName tsk2 w1 =
           (Rejected (already_running_result (store w1 (run_state r))), w1, [])"
proof -
  obtain a where found: "map_of (agentStates w) (toLowerCase agentName) = Some a"
    using assms by (cases "map_of (agentStates w) (toLowerCase agentName)")
                   (auto simp: dispatchAgent_def)
  have idle: "status (store w a) \<noteq> Running"
    using assms found by (auto simp: dispatchAgent_def split: if_splits)
  obtain mc' where run: "start_run ctx now tsk a (w\<lparr>modelCheckCache := mc'\<rparr>) = (r, w1)"
    using assms found idle
    by (auto simp: dispatchAgent_def split: prod.splits option.splits)
  have a: "run_state r = a" and st: "status (store w1 a) = Running"
    and tab: "agentStates w1 = agentStates w"
    using run by (auto simp: start_run_def Let_def)
  show ?thesis
    using found st tab by (simp add: a dispatchAgent_def)
qed

theorem second_dispatch_witness:
  "status (store w_busy 0) = Running
   \<and> dispatchAgent nw_missing ctx_cloud 3000 ''builder'' ''once more'' w_busy =
       (Rejected (already_running_result (store w_busy 0)), w_busy, [])"
proof -
  have sp: "fst (dispatchAgent nw_down ctx_cloud 1000 ''builder'' ''list files'' w_team) = Spawned r_busy"
    by code_simp
  have rq: "snd (snd (dispatchAgent nw_down ctx_cloud 1000 ''builder'' ''list files'' w_team)) = []"
    by code_simp
  have first: "dispatchAgent nw_down ctx_cloud 1000 ''builder'' ''list files'' w_team =
                 (Spawned r_busy, w_busy, [])"
    using sp rq by (simp add: w_busy_def prod_eq_iff)
  have a: "run_state r_busy = 0" by code_simp
  show ?thesis
    using second_dispatch_rejected[OF first, of nw_missing ctx_cloud 3000 "''once more''"]
    by (simp add: a)
qed

end
